theory Spec2Isabelle
  imports Complex_Main "HOL-Library.Log_Nat"
begin

section \<open>Python values, artifacts and the object store\<close>

text \<open>
  The module \<^verbatim>\<open>tfx/components/base/decorators.py\<close> defines the base class
  \<^verbatim>\<open>_FunctionExecutor\<close> with its method \<^verbatim>\<open>Do\<close>, and the decorator
  \<^verbatim>\<open>component\<close>. Artifacts are Python objects that are shared by reference between
  the two dictionaries handed to \<^verbatim>\<open>Do\<close> and the arguments of the wrapped function, so
  they live in an explicit store and are named by addresses.
\<close>

type_synonym addr = nat

text \<open>
  The Python values that flow through \<^verbatim>\<open>Do\<close>. A \<^verbatim>\<open>dict\<close> is an association
  list of key and value; an artifact object is a reference into the store. The payload
  of \<open>PFloat\<close> is the exact value of a finite double.
\<close>

datatype pyval =
    PNone
  | PBool bool
  | PInt int
  | PFloat real
  | PStr string
  | PBytes string
  | PList "pyval list"
  | PDict "(pyval \<times> pyval) list"
  | PArtifact addr

text \<open>
  Modelled from the spec: the artifact type \<^verbatim>\<open>tfx.types.Artifact\<close>, which is not among
  the sources. An artifact object exposes a location string and a readable and writable
  scalar value; every other field of the object is the extension part of the record.
\<close>

record artifact =
  uri :: string
  "value" :: pyval

type_synonym 'm store = "addr \<Rightarrow> 'm artifact_scheme"

text \<open>
  \<^verbatim>\<open>Dict[Text, List[tfx_types.Artifact]]\<close>: a dictionary from channel names to lists
  of artifact objects.
\<close>

type_synonym artifact_dict = "string \<rightharpoonup> addr list"

text \<open>
  The exceptions, by their class. \<^verbatim>\<open>KeyError\<close> carries the missing key. The two
  \<^verbatim>\<open>ValueError\<close>s that the module raises have the names that the specification gives
  them: \<open>UnknownArgumentFormat\<close> (line 66), which carries the format as its message
  does, and \<open>DefinitionScopeError\<close> (lines 166-169). \<open>SignatureError\<close> is the error of
  the classifier, with the name of the parameter. The other messages are not modelled.
\<close>

datatype py_error =
    KeyError string
  | IndexError
  | UnknownArgumentFormat pyval
  | DefinitionScopeError
  | EnvironmentError
  | SignatureError string
  | OverflowError
  | TypeError
  | RaisedByFunction string

text \<open>
  The warnings that \<^verbatim>\<open>Do\<close> sends to \<^verbatim>\<open>absl.logging.warning\<close>: the returned value
  is not a dict (with the value, as the message prints it), and a declared output is
  missing from the returned dict (with its name).
\<close>

datatype warning =
    NotADictWarning pyval
  | MissingOutputWarning string

text \<open>
  The outcome of a call: an exception escapes, or a value is returned. Side effects on
  the store are kept in both cases, so every result carries the store.
\<close>

datatype outcome = Raised py_error | Returned pyval

text \<open>
  The wrapped Python function: called with positional arguments, it may read and write
  the artifacts of the store, and either raises or returns a value.
\<close>

type_synonym 'm pyfunc = "pyval list \<Rightarrow> 'm store \<Rightarrow> (py_error + pyval) \<times> 'm store"

text \<open>
  Modelled from the spec: the enumeration \<^verbatim>\<open>ArgFormats\<close> of
  \<^verbatim>\<open>tfx.components.base.function_parser\<close>, which is not among the sources, has the
  five roles below. The class attribute \<^verbatim>\<open>_ARG_FORMATS\<close> is an untyped Python list, so
  an entry may carry any other object as well: \<open>NotAnArgFormat\<close>.
\<close>

datatype arg_format =
    INPUT_ARTIFACT
  | INPUT_URI
  | OUTPUT_ARTIFACT
  | OUTPUT_URI
  | ARTIFACT_VALUE
  | NotAnArgFormat pyval

datatype primitive = PrimInt | PrimFloat | PrimText | PrimBytes

datatype artifact_kind = ArtifactType string | PrimitiveKind primitive

text \<open>
  A subclass of \<^verbatim>\<open>_FunctionExecutor\<close> as \<^verbatim>\<open>component\<close> builds it with
  \<^verbatim>\<open>type(...)\<close>: its name, its module and the three overridden class attributes.
\<close>

record 'm executor_class =
  cls_name :: string
  cls_module :: string
  ARG_FORMATS :: "(string \<times> arg_format) list"
  FUNCTION :: "'m pyfunc"
  RETURNED_VALUES :: "(string \<times> artifact_kind) list"

section \<open>The executor: \<^verbatim>\<open>_FunctionExecutor.Do\<close>\<close>

text \<open>Python truth value testing, as \<^verbatim>\<open>outputs or {}\<close> applies it.\<close>

fun truthy :: "pyval \<Rightarrow> bool" where
  "truthy PNone = False"
| "truthy (PBool b) = b"
| "truthy (PInt i) = (i \<noteq> 0)"
| "truthy (PFloat r) = (r \<noteq> 0)"
| "truthy (PStr s) = (s \<noteq> [])"
| "truthy (PBytes s) = (s \<noteq> [])"
| "truthy (PList xs) = (xs \<noteq> [])"
| "truthy (PDict kvs) = (kvs \<noteq> [])"
| "truthy (PArtifact a) = True"

text \<open>
  \<^verbatim>\<open>d[name][0]\<close>: a missing key raises \<^verbatim>\<open>KeyError\<close>, an empty list raises
  \<^verbatim>\<open>IndexError\<close>, otherwise the first element is taken.
\<close>

definition first_artifact :: "artifact_dict \<Rightarrow> string \<Rightarrow> py_error + addr" where
  "first_artifact d name =
     (case d name of
        None \<Rightarrow> Inl (KeyError name)
      | Some [] \<Rightarrow> Inl IndexError
      | Some (a # rest) \<Rightarrow> Inr a)"

text \<open>The body of the first loop of \<^verbatim>\<open>Do\<close>: the \<^verbatim>\<open>if\<close>/\<^verbatim>\<open>elif\<close> chain (lines 55-66).\<close>

fun Do_resolve_arg ::
  "artifact_dict \<Rightarrow> artifact_dict \<Rightarrow> 'm store \<Rightarrow> string \<Rightarrow> arg_format \<Rightarrow> py_error + pyval" where
  "Do_resolve_arg input_dict output_dict s name INPUT_ARTIFACT =
     (case first_artifact input_dict name of Inl e \<Rightarrow> Inl e | Inr a \<Rightarrow> Inr (PArtifact a))"
| "Do_resolve_arg input_dict output_dict s name INPUT_URI =
     (case first_artifact input_dict name of Inl e \<Rightarrow> Inl e | Inr a \<Rightarrow> Inr (PStr (uri (s a))))"
| "Do_resolve_arg input_dict output_dict s name OUTPUT_ARTIFACT =
     (case first_artifact output_dict name of Inl e \<Rightarrow> Inl e | Inr a \<Rightarrow> Inr (PArtifact a))"
| "Do_resolve_arg input_dict output_dict s name OUTPUT_URI =
     (case first_artifact output_dict name of Inl e \<Rightarrow> Inl e | Inr a \<Rightarrow> Inr (PStr (uri (s a))))"
| "Do_resolve_arg input_dict output_dict s name ARTIFACT_VALUE =
     (case first_artifact input_dict name of Inl e \<Rightarrow> Inl e | Inr a \<Rightarrow> Inr (value (s a)))"
| "Do_resolve_arg input_dict output_dict s name (NotAnArgFormat x) =
     Inl (UnknownArgumentFormat x)"

text \<open>
  The first loop (lines 53-66): \<^verbatim>\<open>function_args\<close> starts empty and grows by
  \<^verbatim>\<open>append\<close>; the first entry that raises ends the loop.
\<close>

fun Do_function_args ::
  "(string \<times> arg_format) list \<Rightarrow> artifact_dict \<Rightarrow> artifact_dict \<Rightarrow> 'm store \<Rightarrow>
   pyval list \<Rightarrow> py_error + pyval list" where
  "Do_function_args [] input_dict output_dict s function_args = Inr function_args"
| "Do_function_args ((name, fmt) # rest) input_dict output_dict s function_args =
     (case Do_resolve_arg input_dict output_dict s name fmt of
        Inl e \<Rightarrow> Inl e
      | Inr v \<Rightarrow> Do_function_args rest input_dict output_dict s (function_args @ [v]))"

text \<open>
  The second loop (lines 78-84), over the names of \<^verbatim>\<open>_RETURNED_VALUES\<close>: a name
  that is not a key of the returned dict is logged and skipped; otherwise the value is
  assigned to the \<^verbatim>\<open>value\<close> attribute of \<^verbatim>\<open>output_dict[name][0]\<close>. The writes made
  before an exception stay in the store.
\<close>

fun Do_assign_returned ::
  "string list \<Rightarrow> (pyval \<times> pyval) list \<Rightarrow> artifact_dict \<Rightarrow> 'm store \<Rightarrow> warning list \<Rightarrow>
   outcome \<times> 'm store \<times> warning list" where
  "Do_assign_returned [] outputs output_dict s warnings = (Returned PNone, s, warnings)"
| "Do_assign_returned (name # rest) outputs output_dict s warnings =
     (case map_of outputs (PStr name) of
        None \<Rightarrow> Do_assign_returned rest outputs output_dict s (warnings @ [MissingOutputWarning name])
      | Some v \<Rightarrow>
          (case first_artifact output_dict name of
             Inl e \<Rightarrow> (Raised e, s, warnings)
           | Inr a \<Rightarrow>
               Do_assign_returned rest outputs output_dict (s(a := (s a)\<lparr>value := v\<rparr>)) warnings))"

text \<open>
  Lines 69-75: the result of the wrapped function is normalised with
  \<^verbatim>\<open>outputs or {}\<close>; a value that is still not a dict (the \<^verbatim>\<open>isinstance\<close> test)
  is logged and \<^verbatim>\<open>Do\<close> returns.
\<close>

definition Do_check_returned ::
  "'m executor_class \<Rightarrow> artifact_dict \<Rightarrow> pyval \<Rightarrow> 'm store \<Rightarrow> outcome \<times> 'm store \<times> warning list" where
  "Do_check_returned self output_dict outputs s =
     (let outputs = (if truthy outputs then outputs else PDict []) in
      case outputs of
        PDict kvs \<Rightarrow> Do_assign_returned (map fst (RETURNED_VALUES self)) kvs output_dict s []
      | _ \<Rightarrow> (Returned PNone, s, [NotADictWarning outputs]))"

text \<open>
  \<^verbatim>\<open>Do(self, input_dict, output_dict, exec_properties)\<close>. The result is the outcome
  (the exception, or the returned value, which is \<^verbatim>\<open>None\<close> on both return paths), the
  store afterwards and the warnings logged. The two dictionaries are only read: no
  statement assigns to them, and they are not passed to the wrapped function.
\<close>

definition Do ::
  "'m executor_class \<Rightarrow> artifact_dict \<Rightarrow> artifact_dict \<Rightarrow> (string \<rightharpoonup> pyval) \<Rightarrow> 'm store \<Rightarrow>
   outcome \<times> 'm store \<times> warning list" where
  "Do self input_dict output_dict exec_properties s =
     (case Do_function_args (ARG_FORMATS self) input_dict output_dict s [] of
        Inl e \<Rightarrow> (Raised e, s, [])
      | Inr function_args \<Rightarrow>
          (case FUNCTION self function_args s of
             (Inl e, s1) \<Rightarrow> (Raised e, s1, [])
           | (Inr outputs, s1) \<Rightarrow> Do_check_returned self output_dict outputs s1))"

section \<open>The decorator: \<^verbatim>\<open>component\<close>\<close>

text \<open>
  The annotation of a parameter, as far as the decorator distinguishes it: one of the
  four artifact annotations with the name of the artifact type, a primitive type, any
  other annotation, or none.
\<close>

datatype annotation =
    InputArtifactAnn string
  | OutputArtifactAnn string
  | InputUriAnn string
  | OutputUriAnn string
  | PrimitiveAnn primitive
  | OtherAnn
  | NoAnn

datatype return_annotation =
    NoReturnAnn
  | OutputDictAnn "(string \<times> primitive) list"
  | OtherReturnAnn

text \<open>
  A Python function object: \<^verbatim>\<open>__name__\<close>, \<^verbatim>\<open>__qualname__\<close>, \<^verbatim>\<open>__module__\<close>, the
  annotated signature and the body.
\<close>

record 'm py_function =
  func_name :: string
  func_qualname :: string
  func_module :: string
  func_params :: "(string \<times> annotation) list"
  func_return :: return_annotation
  func_body :: "'m pyfunc"

text \<open>
  The four results of \<^verbatim>\<open>parse_typehint_component_function\<close>: inputs, outputs,
  argument formats and returned values. The three dictionaries are association lists in
  insertion order.
\<close>

type_synonym classification =
  "(string \<times> artifact_kind) list \<times> (string \<times> artifact_kind) list \<times>
   (string \<times> arg_format) list \<times> (string \<times> artifact_kind) list"

datatype channel_parameter = ChannelParameter artifact_kind

record component_spec =
  spec_name :: string
  INPUTS :: "(string \<times> channel_parameter) list"
  OUTPUTS :: "(string \<times> channel_parameter) list"
  PARAMETERS :: "(string \<times> pyval) list"

text \<open>
  The component class that \<^verbatim>\<open>component\<close> returns; \<open>EXECUTOR_SPEC\<close> is the executor
  class that \<^verbatim>\<open>ExecutorClassSpec\<close> wraps.
\<close>

record 'm component_class =
  comp_name :: string
  comp_module :: string
  SPEC_CLASS :: component_spec
  EXECUTOR_SPEC :: "'m executor_class"

text \<open>
  A module is its attributes by name; \<^verbatim>\<open>sys.modules\<close> is the modules by name.
\<close>

datatype 'm module_attr =
    ExecutorClassAttr "'m executor_class"
  | OtherAttr pyval

type_synonym 'm py_module = "string \<rightharpoonup> 'm module_attr"

type_synonym 'm sys_modules = "string \<rightharpoonup> 'm py_module"

text \<open>
  \<^verbatim>\<open>str.split(sep)\<close> for a separator of one character: the pieces between the
  separators, empty pieces included.
\<close>

fun split_from :: "char \<Rightarrow> string \<Rightarrow> string \<Rightarrow> string list" where
  "split_from sep piece [] = [piece]"
| "split_from sep piece (c # cs) =
     (if c = sep then piece # split_from sep [] cs else split_from sep (piece @ [c]) cs)"

definition split :: "string \<Rightarrow> char \<Rightarrow> string list" where
  "split str sep = split_from sep [] str"

text \<open>
  \<^verbatim>\<open>component(func)\<close> (lines 159-219). The function
  \<^verbatim>\<open>parse_typehint_component_function\<close> is imported from a module that is not among
  the sources, so it is the parameter \<open>parse\<close>; \<^verbatim>\<open>six.PY2\<close> is the parameter \<open>PY2\<close>.
  The effect of \<^verbatim>\<open>setattr(module, ...)\<close> is the new \<^verbatim>\<open>sys.modules\<close>; nothing is
  written before the last point where the function can raise.
\<close>

definition component ::
  "('m py_function \<Rightarrow> py_error + classification) \<Rightarrow> bool \<Rightarrow> 'm sys_modules \<Rightarrow> 'm py_function \<Rightarrow>
   py_error + ('m component_class \<times> 'm sys_modules)" where
  "component parse PY2 modules func =
     (if PY2 then Inl EnvironmentError
      else if ''<locals>'' \<in> set (split (func_qualname func) (CHR ''.'')) then
        Inl DefinitionScopeError
      else
        (case parse func of
           Inl e \<Rightarrow> Inl e
         | Inr (inputs, outputs, arg_formats, returned_values) \<Rightarrow>
             (let channel_inputs =
                    map (\<lambda>(key, artifact_type). (key, ChannelParameter artifact_type)) inputs;
                  channel_outputs =
                    map (\<lambda>(key, artifact_type). (key, ChannelParameter artifact_type)) outputs;
                  component_spec =
                    \<lparr>spec_name = func_name func @ ''_Spec'',
                     INPUTS = channel_inputs,
                     OUTPUTS = channel_outputs,
                     PARAMETERS = []\<rparr>;
                  executor_class =
                    \<lparr>cls_name = func_name func @ ''_Executor'',
                     cls_module = func_module func,
                     ARG_FORMATS = arg_formats,
                     FUNCTION = func_body func,
                     RETURNED_VALUES = returned_values\<rparr>
              in case modules (func_module func) of
                   None \<Rightarrow> Inl (KeyError (func_module func))
                 | Some the_module \<Rightarrow>
                     Inr (\<lparr>comp_name = func_name func,
                           comp_module = func_module func,
                           SPEC_CLASS = component_spec,
                           EXECUTOR_SPEC = executor_class\<rparr>,
                          modules(func_module func \<mapsto>
                            the_module(func_name func @ ''_Executor'' \<mapsto>
                              ExecutorClassAttr executor_class))))))"

text \<open>
  \<^verbatim>\<open>getattr(sys.modules[module_name], attr)\<close>: how a worker that holds only the module
  path and the name of a class finds the class.
\<close>

definition resolve_attr :: "'m sys_modules \<Rightarrow> string \<Rightarrow> string \<Rightarrow> 'm module_attr option" where
  "resolve_attr modules module_name attr =
     (case modules module_name of None \<Rightarrow> None | Some the_module \<Rightarrow> the_module attr)"

section \<open>The signature classifier\<close>

text \<open>
  Modelled from the spec: \<^verbatim>\<open>parse_typehint_component_function\<close> of
  \<^verbatim>\<open>tfx.components.base.function_parser\<close>, which is not among the sources. The
  spec's rules per parameter, in its order of precedence: an input artifact, an output
  artifact, an input location and an output location of kind K take the role of that
  name and enter \<open>inputs\<close> or \<open>outputs\<close> with K; a primitive type is a value parameter
  and enters \<open>inputs\<close> with its primitive kind; any other annotation, or none, is an
  error. The return annotation, if present, must be an output dictionary declaration of
  names with primitive types, each an entry of \<open>returned_values\<close>.
\<close>

fun classify_param :: "annotation \<Rightarrow> (bool \<times> artifact_kind \<times> arg_format) option" where
  "classify_param (InputArtifactAnn k) = Some (True, ArtifactType k, INPUT_ARTIFACT)"
| "classify_param (OutputArtifactAnn k) = Some (False, ArtifactType k, OUTPUT_ARTIFACT)"
| "classify_param (InputUriAnn k) = Some (True, ArtifactType k, INPUT_URI)"
| "classify_param (OutputUriAnn k) = Some (False, ArtifactType k, OUTPUT_URI)"
| "classify_param (PrimitiveAnn p) = Some (True, PrimitiveKind p, ARTIFACT_VALUE)"
| "classify_param OtherAnn = None"
| "classify_param NoAnn = None"

fun classify_params ::
  "(string \<times> annotation) list \<Rightarrow>
   py_error + ((string \<times> artifact_kind) list \<times> (string \<times> artifact_kind) list \<times>
               (string \<times> arg_format) list)" where
  "classify_params [] = Inr ([], [], [])"
| "classify_params ((name, ann) # rest) =
     (case classify_param ann of
        None \<Rightarrow> Inl (SignatureError name)
      | Some (is_input, kind, fmt) \<Rightarrow>
          (case classify_params rest of
             Inl e \<Rightarrow> Inl e
           | Inr (inputs, outputs, arg_formats) \<Rightarrow>
               Inr (if is_input then (name, kind) # inputs else inputs,
                    if is_input then outputs else (name, kind) # outputs,
                    (name, fmt) # arg_formats)))"

definition parse_typehint_component_function :: "'m py_function \<Rightarrow> py_error + classification" where
  "parse_typehint_component_function func =
     (case classify_params (func_params func) of
        Inl e \<Rightarrow> Inl e
      | Inr (inputs, outputs, arg_formats) \<Rightarrow>
          (case func_return func of
             NoReturnAnn \<Rightarrow> Inr (inputs, outputs, arg_formats, [])
           | OutputDictAnn entries \<Rightarrow>
               Inr (inputs, outputs, arg_formats,
                    map (\<lambda>(name, p). (name, PrimitiveKind p)) entries)
           | OtherReturnAnn \<Rightarrow> Inl (SignatureError ''return'')))"

section \<open>The components of the test module\<close>

text \<open>
  \<^verbatim>\<open>float(n)\<close> for an \<^verbatim>\<open>int\<close>: exact below \<open>2^53\<close>; a larger integer is rounded to 53
  significant bits, ties to even, and \<^verbatim>\<open>OverflowError\<close> is raised when the rounded
  value reaches \<open>2^1024\<close>.
\<close>

definition py_float :: "int \<Rightarrow> py_error + real" where
  "py_float n =
     (if \<bar>n\<bar> < 2 ^ 53 then Inr (real_of_int n)
      else
        (let m = \<bar>n\<bar>;
             k = nat (bitlen m) - 53;
             q = m div 2 ^ k;
             r = m mod 2 ^ k;
             q' = (if 2 * r > 2 ^ k \<or> (2 * r = 2 ^ k \<and> odd q) then q + 1 else q);
             v = q' * 2 ^ k
         in if v \<ge> 2 ^ 1024 then Inl OverflowError else Inr (real_of_int (sgn n * v))))"

text \<open>
  The operands of \<^verbatim>\<open>a + b\<close> and \<^verbatim>\<open>a * b\<close> in \<^verbatim>\<open>simple_component\<close>, whose
  parameters are annotated \<^verbatim>\<open>int\<close>: an \<^verbatim>\<open>int\<close>, or a \<^verbatim>\<open>bool\<close>, which is an
  \<^verbatim>\<open>int\<close> in Python.
\<close>

fun int_operand :: "pyval \<Rightarrow> int option" where
  "int_operand (PInt i) = Some i"
| "int_operand (PBool b) = Some (if b then 1 else 0)"
| "int_operand v = None"

text \<open>
  The body of \<^verbatim>\<open>simple_component(a, b, c, d)\<close> of the test module (lines 45-49):
  \<^verbatim>\<open>return {'e': float(a + b), 'f': float(a * b)}\<close>, the entry of \<^verbatim>\<open>'e'\<close> being
  evaluated first. A call with another number of arguments raises \<^verbatim>\<open>TypeError\<close>. The
  function touches no artifact.

  The annotations are not enforced, so the operands may be of any type. For operands
  that are \<^verbatim>\<open>int\<close> the sum and the product are exact. For any other operands, what the
  function returns or raises is decided by Python's arithmetic on floating-point numbers,
  strings and sequences, which this theory does not define: it is the parameter
  \<open>other_operands\<close>, a function of the two operands.
\<close>

definition simple_component_body ::
  "(pyval \<Rightarrow> pyval \<Rightarrow> py_error + pyval) \<Rightarrow> 'm pyfunc" where
  "simple_component_body other_operands args s =
     (case args of
        [a, b, c, d] \<Rightarrow>
          (case (int_operand a, int_operand b) of
             (Some x, Some y) \<Rightarrow>
               (case py_float (x + y) of
                  Inl err \<Rightarrow> (Inl err, s)
                | Inr e \<Rightarrow>
                    (case py_float (x * y) of
                       Inl err \<Rightarrow> (Inl err, s)
                     | Inr f \<Rightarrow>
                         (Inr (PDict [(PStr ''e'', PFloat e), (PStr ''f'', PFloat f)]), s)))
           | _ \<Rightarrow> (other_operands a b, s))
      | _ \<Rightarrow> (Inl TypeError, s))"

definition simple_component ::
  "(pyval \<Rightarrow> pyval \<Rightarrow> py_error + pyval) \<Rightarrow> 'm py_function" where
  "simple_component other_operands =
     \<lparr>func_name = ''simple_component'',
      func_qualname = ''simple_component'',
      func_module = ''tfx.components.base.decorators_test'',
      func_params =
        [(''a'', PrimitiveAnn PrimInt), (''b'', PrimitiveAnn PrimInt),
         (''c'', PrimitiveAnn PrimText), (''d'', PrimitiveAnn PrimBytes)],
      func_return = OutputDictAnn [(''e'', PrimFloat), (''f'', PrimFloat)],
      func_body = simple_component_body other_operands\<rparr>"

text \<open>
  \<^verbatim>\<open>my_component()\<close> of \<^verbatim>\<open>testDefinitionInClosureFails\<close> (lines 72-74): defined in a
  method of the test class, without parameters or annotations, returning \<^verbatim>\<open>None\<close>.
  A call with arguments raises \<^verbatim>\<open>TypeError\<close>.
\<close>

definition my_component :: "'m py_function" where
  "my_component =
     \<lparr>func_name = ''my_component'',
      func_qualname = ''ComponentDecoratorTest.testDefinitionInClosureFails.<locals>.my_component'',
      func_module = ''tfx.components.base.decorators_test'',
      func_params = [],
      func_return = NoReturnAnn,
      func_body = (\<lambda>args s. (case args of [] \<Rightarrow> (Inr PNone, s)
                    | _ \<Rightarrow> (Inl TypeError, s)))\<rparr>"

section \<open>The argument of one entry, as the specification words it\<close>

text \<open>
  The first element of the sequence that a dictionary holds under a name, when there is
  one.
\<close>

definition first_of :: "artifact_dict \<Rightarrow> string \<Rightarrow> addr option" where
  "first_of d name = (case d name of Some (a # rest) \<Rightarrow> Some a | _ \<Rightarrow> None)"

text \<open>
  The call argument that the specification gives for one entry \<open>(name, role)\<close>: the
  artifact object \<^verbatim>\<open>input_dict[name][0]\<close> for an input artifact, its \<^verbatim>\<open>uri\<close> for an
  input location, the artifact object \<^verbatim>\<open>output_dict[name][0]\<close> for an output artifact,
  its \<^verbatim>\<open>uri\<close> for an output location, and the \<^verbatim>\<open>value\<close> of
  \<^verbatim>\<open>input_dict[name][0]\<close> for a value parameter. No argument is given for any other
  role.
\<close>

fun spec_argument ::
  "artifact_dict \<Rightarrow> artifact_dict \<Rightarrow> 'm store \<Rightarrow> string \<times> arg_format \<Rightarrow> pyval option" where
  "spec_argument input_dict output_dict s (name, INPUT_ARTIFACT) =
     map_option PArtifact (first_of input_dict name)"
| "spec_argument input_dict output_dict s (name, INPUT_URI) =
     map_option (\<lambda>a. PStr (uri (s a))) (first_of input_dict name)"
| "spec_argument input_dict output_dict s (name, OUTPUT_ARTIFACT) =
     map_option PArtifact (first_of output_dict name)"
| "spec_argument input_dict output_dict s (name, OUTPUT_URI) =
     map_option (\<lambda>a. PStr (uri (s a))) (first_of output_dict name)"
| "spec_argument input_dict output_dict s (name, ARTIFACT_VALUE) =
     map_option (\<lambda>a. value (s a)) (first_of input_dict name)"
| "spec_argument input_dict output_dict s (name, NotAnArgFormat x) = None"


section \<open>Example invocations\<close>

text \<open>
  The artifacts of the test pipeline: the four outputs of \<^verbatim>\<open>injector\<close>
  (\<^verbatim>\<open>{'a': 10, 'b': 22, 'c': 'unicode', 'd': b'bytes'}\<close>) at the addresses 0 to 3, the
  inputs of \<^verbatim>\<open>simple_component\<close>, and its two outputs at the addresses 4 and 5.
\<close>

definition test_store :: "unit store" where
  "test_store a =
     (if a = 0 then \<lparr>uri = ''/in/a'', value = PInt 10\<rparr>
      else if a = 1 then \<lparr>uri = ''/in/b'', value = PInt 22\<rparr>
      else if a = 2 then \<lparr>uri = ''/in/c'', value = PStr ''unicode''\<rparr>
      else if a = 3 then \<lparr>uri = ''/in/d'', value = PBytes ''bytes''\<rparr>
      else if a = 4 then \<lparr>uri = ''/out/e'', value = PNone\<rparr>
      else \<lparr>uri = ''/out/f'', value = PNone\<rparr>)"

definition test_input_dict :: artifact_dict where
  "test_input_dict = [''a'' \<mapsto> [0], ''b'' \<mapsto> [1], ''c'' \<mapsto> [2], ''d'' \<mapsto> [3]]"

definition test_output_dict :: artifact_dict where
  "test_output_dict = [''e'' \<mapsto> [4], ''f'' \<mapsto> [5]]"

text \<open>
  An executor class whose function takes one parameter of each of the five roles and
  returns \<^verbatim>\<open>None\<close>.
\<close>

definition five_roles_executor :: "unit executor_class" where
  "five_roles_executor =
     \<lparr>cls_name = ''five_roles_Executor'',
      cls_module = ''tfx.components.base.decorators_test'',
      ARG_FORMATS =
        [(''a'', INPUT_ARTIFACT), (''b'', INPUT_URI), (''e'', OUTPUT_ARTIFACT),
         (''f'', OUTPUT_URI), (''c'', ARTIFACT_VALUE)],
      FUNCTION = (\<lambda>args s. (Inr PNone, s)),
      RETURNED_VALUES = []\<rparr>"

text \<open>
  An executor class whose function takes no parameter, touches no artifact and returns
  the given value, with the given declared outputs.
\<close>

definition constant_executor ::
  "pyval \<Rightarrow> (string \<times> artifact_kind) list \<Rightarrow> unit executor_class" where
  "constant_executor v returned_values =
     \<lparr>cls_name = ''constant_Executor'',
      cls_module = ''tfx.components.base.decorators_test'',
      ARG_FORMATS = [],
      FUNCTION = (\<lambda>args s. (Inr v, s)),
      RETURNED_VALUES = returned_values\<rparr>"

text \<open>
  An executor class whose function takes an input artifact and changes the \<^verbatim>\<open>uri\<close> of
  the object it is given.
\<close>

definition relocating_executor :: "unit executor_class" where
  "relocating_executor =
     \<lparr>cls_name = ''relocating_Executor'',
      cls_module = ''tfx.components.base.decorators_test'',
      ARG_FORMATS = [(''a'', INPUT_ARTIFACT)],
      FUNCTION =
        (\<lambda>args s. case args of
           [PArtifact x] \<Rightarrow> (Inr PNone, s(x := (s x)\<lparr>uri := ''/moved''\<rparr>))
         | _ \<Rightarrow> (Inl TypeError, s)),
      RETURNED_VALUES = []\<rparr>"

text \<open>
  The precondition of the specification on the two dictionaries, in its words: every
  name of the argument formats maps to a non-empty sequence in the appropriate dictionary
  (\<^verbatim>\<open>input_dict\<close> for an input artifact, an input location and a value parameter,
  \<^verbatim>\<open>output_dict\<close> for an output artifact and an output location), and every declared
  returned-value name maps to a non-empty sequence in \<^verbatim>\<open>output_dict\<close>. No dictionary
  is appropriate for an entry of another role, of which the precondition says nothing.
\<close>

fun entry_resolved :: "artifact_dict \<Rightarrow> artifact_dict \<Rightarrow> string \<times> arg_format \<Rightarrow> bool" where
  "entry_resolved input_dict output_dict (name, INPUT_ARTIFACT) = (first_of input_dict name \<noteq> None)"
| "entry_resolved input_dict output_dict (name, INPUT_URI) = (first_of input_dict name \<noteq> None)"
| "entry_resolved input_dict output_dict (name, OUTPUT_ARTIFACT) = (first_of output_dict name \<noteq> None)"
| "entry_resolved input_dict output_dict (name, OUTPUT_URI) = (first_of output_dict name \<noteq> None)"
| "entry_resolved input_dict output_dict (name, ARTIFACT_VALUE) = (first_of input_dict name \<noteq> None)"
| "entry_resolved input_dict output_dict (name, NotAnArgFormat x) = True"

definition fully_resolved :: "'m executor_class \<Rightarrow> artifact_dict \<Rightarrow> artifact_dict \<Rightarrow> bool" where
  "fully_resolved self input_dict output_dict \<longleftrightarrow>
     list_all (entry_resolved input_dict output_dict) (ARG_FORMATS self) \<and>
     list_all (\<lambda>name. first_of output_dict name \<noteq> None) (map fst (RETURNED_VALUES self))"

text \<open>
  An executor class whose second argument format is not one of the five roles.
\<close>

definition unknown_format_executor :: "unit executor_class" where
  "unknown_format_executor =
     \<lparr>cls_name = ''unknown_format_Executor'',
      cls_module = ''tfx.components.base.decorators_test'',
      ARG_FORMATS = [(''a'', INPUT_ARTIFACT), (''b'', NotAnArgFormat (PInt 6))],
      FUNCTION = (\<lambda>args s. (Inr PNone, s)),
      RETURNED_VALUES = []\<rparr>"

text \<open>
  The values that the second loop of \<^verbatim>\<open>Do\<close> assigns to the \<^verbatim>\<open>value\<close> of the
  artifact \<open>a\<close>, in the order of the assignments: the values of the declared names
  that the returned mapping contains and whose first output artifact is \<open>a\<close>.
\<close>

definition written_values ::
  "string list \<Rightarrow> (pyval \<times> pyval) list \<Rightarrow> artifact_dict \<Rightarrow> addr \<Rightarrow> pyval list" where
  "written_values names outputs output_dict a =
     List.map_filter
       (\<lambda>name. if first_of output_dict name = Some a then map_of outputs (PStr name) else None)
       names"

text \<open>
  The dictionary that is appropriate for a role, in the words of the specification:
  \<^verbatim>\<open>input_dict\<close> for an input artifact, an input location and a value parameter,
  \<^verbatim>\<open>output_dict\<close> for an output artifact and an output location, none for another role.
\<close>

fun role_dict :: "artifact_dict \<Rightarrow> artifact_dict \<Rightarrow> arg_format \<Rightarrow> artifact_dict option" where
  "role_dict input_dict output_dict INPUT_ARTIFACT = Some input_dict"
| "role_dict input_dict output_dict INPUT_URI = Some input_dict"
| "role_dict input_dict output_dict OUTPUT_ARTIFACT = Some output_dict"
| "role_dict input_dict output_dict OUTPUT_URI = Some output_dict"
| "role_dict input_dict output_dict ARTIFACT_VALUE = Some input_dict"
| "role_dict input_dict output_dict (NotAnArgFormat x) = None"

text \<open>
  An executor class whose function takes the value of the input \<^verbatim>\<open>a\<close> and returns a
  mapping with the declared output \<^verbatim>\<open>e\<close> but without the declared output \<^verbatim>\<open>f\<close>.
\<close>

definition partial_output_executor :: "unit executor_class" where
  "partial_output_executor =
     \<lparr>cls_name = ''partial_output_Executor'',
      cls_module = ''tfx.components.base.decorators_test'',
      ARG_FORMATS = [(''a'', ARTIFACT_VALUE)],
      FUNCTION = (\<lambda>args s. (Inr (PDict [(PStr ''e'', PFloat 1)]), s)),
      RETURNED_VALUES = [(''e'', PrimitiveKind PrimFloat), (''f'', PrimitiveKind PrimFloat)]\<rparr>"


section \<open>Argument resolution\<close>

lemma first_artifact_Inr: "first_artifact d name = Inr a \<longleftrightarrow> first_of d name = Some a"
  by (auto simp: first_artifact_def first_of_def split: option.splits list.splits)

lemma first_artifact_Inl:
  "first_artifact d name = Inl e \<longleftrightarrow>
     (d name = None \<and> e = KeyError name) \<or> (d name = Some [] \<and> e = IndexError)"
  by (auto simp: first_artifact_def split: option.splits list.splits)

lemma Do_resolve_arg_spec:
  "Do_resolve_arg input_dict output_dict s name fmt = Inr v \<longleftrightarrow>
     spec_argument input_dict output_dict s (name, fmt) = Some v"
  by (cases fmt)
     (auto simp: first_artifact_def first_of_def split: sum.splits option.splits list.splits)

lemma Do_function_args_acc:
  "Do_function_args fmts input_dict output_dict s acc =
     (case Do_function_args fmts input_dict output_dict s [] of
        Inl e \<Rightarrow> Inl e | Inr vs \<Rightarrow> Inr (acc @ vs))"
proof (induction fmts arbitrary: acc)
  case Nil
  then show ?case by simp
next
  case (Cons p fmts)
  obtain name fmt where p: "p = (name, fmt)" by (cases p)
  show ?case
  proof (cases "Do_resolve_arg input_dict output_dict s name fmt")
    case (Inl e)
    then show ?thesis by (simp add: p)
  next
    case (Inr v)
    then show ?thesis
      using Cons.IH [of "acc @ [v]"] Cons.IH [of "[v]"]
      by (simp add: p split: sum.splits)
  qed
qed

lemma Do_function_args_Cons:
  "Do_function_args ((name, fmt) # rest) input_dict output_dict s [] =
     (case Do_resolve_arg input_dict output_dict s name fmt of
        Inl e \<Rightarrow> Inl e
      | Inr v \<Rightarrow>
          (case Do_function_args rest input_dict output_dict s [] of
             Inl e \<Rightarrow> Inl e | Inr vs \<Rightarrow> Inr (v # vs)))"
proof (cases "Do_resolve_arg input_dict output_dict s name fmt")
  case (Inl e)
  then show ?thesis by simp
next
  case (Inr v)
  then show ?thesis
    using Do_function_args_acc [of rest input_dict output_dict s "[v]"]
    by (simp split: sum.splits)
qed

lemma Do_function_args_sound:
  "Do_function_args fmts input_dict output_dict s [] = Inr args \<Longrightarrow>
     map (spec_argument input_dict output_dict s) fmts = map Some args"
proof (induction fmts arbitrary: args)
  case Nil
  then show ?case by simp
next
  case (Cons p fmts)
  obtain name fmt where p: "p = (name, fmt)" by (cases p)
  from Cons.prems obtain v vs where
    v: "Do_resolve_arg input_dict output_dict s name fmt = Inr v" and
    vs: "Do_function_args fmts input_dict output_dict s [] = Inr vs" and
    args: "args = v # vs"
    by (auto simp: p Do_function_args_Cons simp del: Do_function_args.simps split: sum.splits)
  from v have "spec_argument input_dict output_dict s (name, fmt) = Some v"
    by (simp add: Do_resolve_arg_spec)
  with Cons.IH [OF vs] show ?case by (simp add: p args)
qed

lemma Do_function_args_complete:
  "map (spec_argument input_dict output_dict s) fmts = map Some args \<Longrightarrow>
     Do_function_args fmts input_dict output_dict s [] = Inr args"
proof (induction fmts arbitrary: args)
  case Nil
  then show ?case by simp
next
  case (Cons p fmts)
  obtain name fmt where p: "p = (name, fmt)" by (cases p)
  from Cons.prems obtain v vs where
    args: "args = v # vs" and
    v: "spec_argument input_dict output_dict s (name, fmt) = Some v" and
    vs: "map (spec_argument input_dict output_dict s) fmts = map Some vs"
    by (cases args) (auto simp: p)
  from v have "Do_resolve_arg input_dict output_dict s name fmt = Inr v"
    by (simp add: Do_resolve_arg_spec)
  with Cons.IH [OF vs] show ?case
    by (simp add: p args Do_function_args_Cons del: Do_function_args.simps)
qed

lemma Do_check_returned_FUNCTION:
  "Do_check_returned (self\<lparr>FUNCTION := g\<rparr>) output_dict outputs s =
   Do_check_returned self output_dict outputs s"
  by (simp add: Do_check_returned_def split: pyval.splits)

text \<open>
  Claim C1. When the first loop of \<^verbatim>\<open>Do\<close> completes, the arguments it has collected
  are, entry by entry and in the order of the stored argument formats, the arguments that
  the specification gives for each role; the wrapped function is called with exactly this
  argument list, and \<^verbatim>\<open>Do\<close> depends on the function through this one call only.
\<close>

theorem Do_resolves_arguments_in_order:
  assumes "Do_function_args (ARG_FORMATS self) input_dict output_dict s [] = Inr function_args"
  shows "map Some function_args = map (spec_argument input_dict output_dict s) (ARG_FORMATS self) \<and>
         Do self input_dict output_dict exec_properties s =
           (case FUNCTION self function_args s of
              (Inl e, s1) \<Rightarrow> (Raised e, s1, [])
            | (Inr outputs, s1) \<Rightarrow> Do_check_returned self output_dict outputs s1) \<and>
         (\<forall>g. g function_args s = FUNCTION self function_args s \<longrightarrow>
              Do (self\<lparr>FUNCTION := g\<rparr>) input_dict output_dict exec_properties s =
              Do self input_dict output_dict exec_properties s)"
  using assms Do_function_args_sound [OF assms]
  by (simp add: Do_def Do_check_returned_FUNCTION split: prod.splits sum.splits)

theorem Do_resolves_arguments_in_order_witness:
  "Do_function_args (ARG_FORMATS five_roles_executor) test_input_dict test_output_dict
     test_store [] =
     Inr [PArtifact 0, PStr ''/in/b'', PArtifact 4, PStr ''/out/f'', PStr ''unicode''] \<and>
   map Some [PArtifact 0, PStr ''/in/b'', PArtifact 4, PStr ''/out/f'', PStr ''unicode''] =
     map (spec_argument test_input_dict test_output_dict test_store)
       (ARG_FORMATS five_roles_executor) \<and>
   Do five_roles_executor test_input_dict test_output_dict Map.empty test_store =
     (Returned PNone, test_store, [])"
proof -
  have h: "Do_function_args (ARG_FORMATS five_roles_executor) test_input_dict test_output_dict
     test_store [] =
     Inr [PArtifact 0, PStr ''/in/b'', PArtifact 4, PStr ''/out/f'', PStr ''unicode'']"
    by (simp add: five_roles_executor_def test_input_dict_def test_output_dict_def
        test_store_def first_artifact_def)
  have c: "Do_check_returned five_roles_executor test_output_dict PNone test_store =
     (Returned PNone, test_store, [])"
    by (simp add: Do_check_returned_def five_roles_executor_def)
  have f: "FUNCTION five_roles_executor = (\<lambda>args s. (Inr PNone, s))"
    by (simp add: five_roles_executor_def)
  show ?thesis
    using h Do_resolves_arguments_in_order [OF h, of Map.empty] c
    by (simp add: f)
qed

section \<open>The returned value\<close>

lemma Do_assign_returned_absent:
  "\<forall>name \<in> set names. map_of outputs (PStr name) = None \<Longrightarrow>
   Do_assign_returned names outputs output_dict s warnings =
     (Returned PNone, s, warnings @ map MissingOutputWarning names)"
  by (induction names arbitrary: warnings) auto

lemma Do_assign_returned_warnings:
  "set (snd (snd (Do_assign_returned names outputs output_dict s warnings))) \<subseteq>
     set warnings \<union> MissingOutputWarning ` set names"
proof (induction names arbitrary: s warnings)
  case Nil
  then show ?case by simp
next
  case (Cons name names)
  show ?case
  proof (cases "map_of outputs (PStr name)")
    case None
    then show ?thesis
      using Cons.IH [of s "warnings @ [MissingOutputWarning name]"] by auto
  next
    case (Some v)
    show ?thesis
    proof (cases "first_artifact output_dict name")
      case (Inl e)
      with Some show ?thesis by auto
    next
      case (Inr a)
      have step: "Do_assign_returned (name # names) outputs output_dict s warnings =
          Do_assign_returned names outputs output_dict (s(a := (s a)\<lparr>value := v\<rparr>)) warnings"
        using Some Inr by simp
      have "set (snd (snd (Do_assign_returned names outputs output_dict
          (s(a := (s a)\<lparr>value := v\<rparr>)) warnings))) \<subseteq>
          set warnings \<union> MissingOutputWarning ` set names"
        by (rule Cons.IH)
      then show ?thesis unfolding step by auto
    qed
  qed
qed

lemma Do_check_returned_not_dict:
  "\<forall>kvs. v \<noteq> PDict kvs \<Longrightarrow>
   Do_check_returned self output_dict v s =
     (Returned PNone, s,
      if truthy v then [NotADictWarning v]
      else map MissingOutputWarning (map fst (RETURNED_VALUES self)))"
  by (cases v) (simp_all add: Do_check_returned_def Do_assign_returned_absent)

lemma Do_check_returned_falsy:
  "\<not> truthy v \<Longrightarrow>
   Do_check_returned self output_dict v s =
     (Returned PNone, s, map MissingOutputWarning (map fst (RETURNED_VALUES self)))"
  by (simp add: Do_check_returned_def Do_assign_returned_absent)

lemma Do_check_returned_dict:
  "Do_check_returned self output_dict (PDict kvs) s =
     Do_assign_returned (map fst (RETURNED_VALUES self)) kvs output_dict s []"
  by (cases kvs) (simp_all add: Do_check_returned_def)

lemma Do_call:
  "Do_function_args (ARG_FORMATS self) input_dict output_dict s [] = Inr function_args \<Longrightarrow>
   FUNCTION self function_args s = (Inr v, s1) \<Longrightarrow>
   Do self input_dict output_dict exec_properties s = Do_check_returned self output_dict v s1"
  by (simp add: Do_def)

text \<open>
  Claim C2, as amended. When the wrapped function returns a value that is not a mapping,
  \<^verbatim>\<open>Do\<close> returns \<^verbatim>\<open>None\<close> without raising and writes nothing: the store is the
  one the function left. A truthy value is reported by the one warning that names it. A
  falsy value (\<^verbatim>\<open>None\<close>, \<open>0\<close>, \<^verbatim>\<open>False\<close>, an empty string or list) is taken for
  the empty mapping: that warning is not given, and each declared output is reported as
  missing.
\<close>

theorem Do_non_mapping_return:
  assumes "Do_function_args (ARG_FORMATS self) input_dict output_dict s [] = Inr function_args"
    and "FUNCTION self function_args s = (Inr v, s1)"
    and "\<forall>kvs. v \<noteq> PDict kvs"
  shows "Do self input_dict output_dict exec_properties s =
           (Returned PNone, s1,
            if truthy v then [NotADictWarning v]
            else map MissingOutputWarning (map fst (RETURNED_VALUES self)))"
  using assms by (simp add: Do_call Do_check_returned_not_dict)

theorem Do_non_mapping_return_witness:
  "Do (constant_executor (PInt 7) [(''e'', PrimitiveKind PrimFloat)])
      Map.empty test_output_dict Map.empty test_store =
     (Returned PNone, test_store, [NotADictWarning (PInt 7)]) \<and>
   Do (constant_executor PNone [(''e'', PrimitiveKind PrimFloat)])
      Map.empty test_output_dict Map.empty test_store =
     (Returned PNone, test_store, [MissingOutputWarning ''e''])"
  using
    Do_non_mapping_return [of "constant_executor (PInt 7) [(''e'', PrimitiveKind PrimFloat)]"
      Map.empty test_output_dict test_store "[]" "PInt 7" test_store Map.empty]
    Do_non_mapping_return [of "constant_executor PNone [(''e'', PrimitiveKind PrimFloat)]"
      Map.empty test_output_dict test_store "[]" PNone test_store Map.empty]
  by (simp add: constant_executor_def)

text \<open>
  The claim as it is stated fails for a falsy value that is not a mapping: a function
  without declared outputs that returns the integer \<open>0\<close> is run without any warning.
\<close>

theorem Do_non_mapping_return_counterexample:
  "FUNCTION (constant_executor (PInt 0) []) [] test_store = (Inr (PInt 0), test_store) \<and>
   Do (constant_executor (PInt 0) []) Map.empty Map.empty Map.empty test_store =
     (Returned PNone, test_store, [])"
  by (simp add: constant_executor_def Do_def Do_check_returned_def)

text \<open>
  Claim C10. A falsy return value is replaced by the empty mapping before the test for a
  mapping: \<^verbatim>\<open>Do\<close> behaves as if the function had returned \<^verbatim>\<open>{}\<close>. The warning
  about a value that is not a mapping is logged exactly when the returned value is truthy
  and not a mapping, and it names that value.
\<close>

theorem Do_falsy_return_is_empty_mapping:
  assumes "Do_function_args (ARG_FORMATS self) input_dict output_dict s [] = Inr function_args"
    and "FUNCTION self function_args s = (Inr v, s1)"
  shows "(\<not> truthy v \<longrightarrow>
            Do self input_dict output_dict exec_properties s =
              Do_check_returned self output_dict (PDict []) s1 \<and>
            Do self input_dict output_dict exec_properties s =
              (Returned PNone, s1, map MissingOutputWarning (map fst (RETURNED_VALUES self)))) \<and>
         (NotADictWarning w \<in> set (snd (snd (Do self input_dict output_dict exec_properties s)))
            \<longleftrightarrow> w = v \<and> truthy v \<and> (\<forall>kvs. v \<noteq> PDict kvs))"
proof -
  have call: "Do self input_dict output_dict exec_properties s =
      Do_check_returned self output_dict v s1"
    using assms by (rule Do_call)
  have falsy: "\<not> truthy v \<Longrightarrow> Do_check_returned self output_dict v s1 =
      Do_check_returned self output_dict (PDict []) s1"
    by (simp add: Do_check_returned_falsy)
  have warn: "NotADictWarning w \<in> set (snd (snd (Do_check_returned self output_dict v s1)))
      \<longleftrightarrow> w = v \<and> truthy v \<and> (\<forall>kvs. v \<noteq> PDict kvs)"
  proof (cases "\<exists>kvs. v = PDict kvs")
    case True
    then obtain kvs where v: "v = PDict kvs" by blast
    have "NotADictWarning w \<notin>
        set (snd (snd (Do_assign_returned (map fst (RETURNED_VALUES self)) kvs output_dict s1 [])))"
      using Do_assign_returned_warnings
        [of "map fst (RETURNED_VALUES self)" kvs output_dict s1 "[]"]
      by auto
    then show ?thesis by (simp add: v Do_check_returned_dict)
  next
    case False
    then have "\<forall>kvs. v \<noteq> PDict kvs" by simp
    then show ?thesis
      by (auto simp: Do_check_returned_not_dict)
  qed
  show ?thesis
    using call falsy warn by (simp add: Do_check_returned_falsy)
qed

theorem Do_falsy_return_is_empty_mapping_witness:
  "Do (constant_executor (PInt 0) [(''e'', PrimitiveKind PrimFloat)])
      Map.empty test_output_dict Map.empty test_store =
     (Returned PNone, test_store, [MissingOutputWarning ''e'']) \<and>
   NotADictWarning (PInt 0) \<notin>
     set (snd (snd (Do (constant_executor (PInt 0) [(''e'', PrimitiveKind PrimFloat)])
       Map.empty test_output_dict Map.empty test_store))) \<and>
   NotADictWarning (PStr ''done'') \<in>
     set (snd (snd (Do (constant_executor (PStr ''done'') [(''e'', PrimitiveKind PrimFloat)])
       Map.empty test_output_dict Map.empty test_store)))"
  using
    Do_falsy_return_is_empty_mapping
      [of "constant_executor (PInt 0) [(''e'', PrimitiveKind PrimFloat)]"
        Map.empty test_output_dict test_store "[]" "PInt 0" test_store Map.empty "PInt 0"]
    Do_falsy_return_is_empty_mapping
      [of "constant_executor (PStr ''done'') [(''e'', PrimitiveKind PrimFloat)]"
        Map.empty test_output_dict test_store "[]" "PStr ''done''" test_store Map.empty
        "PStr ''done''"]
  by (simp add: constant_executor_def Do_check_returned_def)

section \<open>The assignment of the returned values\<close>

lemma Do_assign_returned_no_raise:
  "\<forall>name \<in> set names. map_of outputs (PStr name) \<noteq> None \<longrightarrow> first_of output_dict name \<noteq> None \<Longrightarrow>
   fst (Do_assign_returned names outputs output_dict s warnings) = Returned PNone \<and>
   snd (snd (Do_assign_returned names outputs output_dict s warnings)) =
     warnings @
     map MissingOutputWarning (filter (\<lambda>name. map_of outputs (PStr name) = None) names)"
proof (induction names arbitrary: s warnings)
  case Nil
  then show ?case by simp
next
  case (Cons name names)
  show ?case
  proof (cases "map_of outputs (PStr name)")
    case None
    with Cons show ?thesis by simp
  next
    case (Some v)
    with Cons.prems obtain a where "first_of output_dict name = Some a" by auto
    then have "first_artifact output_dict name = Inr a" by (simp add: first_artifact_Inr)
    with Some Cons show ?thesis by simp
  qed
qed

lemma Do_assign_returned_frame:
  assumes "Do_assign_returned names outputs output_dict s warnings = (outcome, s', warnings')"
  shows "uri (s' a) = uri (s a) \<and> artifact.more (s' a) = artifact.more (s a) \<and>
         (value (s' a) \<noteq> value (s a) \<longrightarrow>
            (\<exists>name \<in> set names. \<exists>v.
               map_of outputs (PStr name) = Some v \<and> first_of output_dict name = Some a \<and>
               value (s' a) = v))"
  using assms
proof (induction names arbitrary: s warnings)
  case Nil
  then show ?case by simp
next
  case (Cons name names)
  show ?case
  proof (cases "map_of outputs (PStr name)")
    case None
    with Cons.prems have
      "Do_assign_returned names outputs output_dict s (warnings @ [MissingOutputWarning name]) =
         (outcome, s', warnings')"
      by simp
    from Cons.IH [OF this] show ?thesis by auto
  next
    case (Some v)
    show ?thesis
    proof (cases "first_artifact output_dict name")
      case (Inl e)
      with Some Cons.prems show ?thesis by simp
    next
      case (Inr b)
      then have fb: "first_of output_dict name = Some b" by (simp add: first_artifact_Inr)
      let ?s1 = "s(b := (s b)\<lparr>value := v\<rparr>)"
      from Some Inr Cons.prems have
        "Do_assign_returned names outputs output_dict ?s1 warnings = (outcome, s', warnings')"
        by simp
      from Cons.IH [OF this] have ih:
        "uri (s' a) = uri (?s1 a)" "artifact.more (s' a) = artifact.more (?s1 a)"
        "value (s' a) \<noteq> value (?s1 a) \<longrightarrow>
           (\<exists>name \<in> set names. \<exists>v.
              map_of outputs (PStr name) = Some v \<and> first_of output_dict name = Some a \<and>
              value (s' a) = v)"
        by auto
      show ?thesis
      proof (cases "value (s' a) = value (?s1 a)")
        case True
        with ih Some fb show ?thesis by (auto split: if_splits)
      next
        case False
        with ih Some fb show ?thesis by (auto split: if_splits)
      qed
    qed
  qed
qed

lemma Do_assign_returned_untouched:
  assumes "Do_assign_returned names outputs output_dict s warnings = (outcome, s', warnings')"
    and "\<forall>name \<in> set names. map_of outputs (PStr name) \<noteq> None \<longrightarrow> first_of output_dict name \<noteq> Some a"
  shows "s' a = s a"
proof -
  from Do_assign_returned_frame [OF assms(1), of a] assms(2)
  have "uri (s' a) = uri (s a)" "artifact.more (s' a) = artifact.more (s a)"
    "value (s' a) = value (s a)"
    by auto
  then show ?thesis by (simp add: artifact.equality)
qed

lemma Do_assign_returned_written:
  assumes "Do_assign_returned names outputs output_dict s warnings = (outcome, s', warnings')"
    and "\<forall>name \<in> set names. map_of outputs (PStr name) \<noteq> None \<longrightarrow> first_of output_dict name \<noteq> None"
    and "map_of outputs (PStr name) = Some v"
    and "first_of output_dict name = Some a"
    and "\<forall>other \<in> set names. other \<noteq> name \<longrightarrow> map_of outputs (PStr other) \<noteq> None \<longrightarrow>
           first_of output_dict other \<noteq> Some a"
  shows "s' a = (if name \<in> set names then (s a)\<lparr>value := v\<rparr> else s a)"
  using assms(1,2,5)
proof (induction names arbitrary: s warnings)
  case Nil
  then show ?case by simp
next
  case (Cons n names)
  show ?case
  proof (cases "map_of outputs (PStr n)")
    case None
    with assms(3) have ne: "n \<noteq> name" by auto
    from None Cons.prems(1) have
      "Do_assign_returned names outputs output_dict s (warnings @ [MissingOutputWarning n]) =
         (outcome, s', warnings')"
      by simp
    from Cons.IH [OF this] Cons.prems(2,3) ne show ?thesis by auto
  next
    case (Some w)
    with Cons.prems(2) obtain b where fb: "first_of output_dict n = Some b" by auto
    then have fa: "first_artifact output_dict n = Inr b" by (simp add: first_artifact_Inr)
    let ?s1 = "s(b := (s b)\<lparr>value := w\<rparr>)"
    from Some fa Cons.prems(1) have run:
      "Do_assign_returned names outputs output_dict ?s1 warnings = (outcome, s', warnings')"
      by simp
    from Cons.IH [OF run] Cons.prems(2,3) have ih:
      "s' a = (if name \<in> set names then (?s1 a)\<lparr>value := v\<rparr> else ?s1 a)"
      by auto
    show ?thesis
    proof (cases "n = name")
      case True
      with Some fb assms(3,4) have "w = v" "b = a" by auto
      with ih True show ?thesis by simp
    next
      case False
      with Some fb Cons.prems(3) have "b \<noteq> a" by auto
      with ih False show ?thesis by simp
    qed
  qed
qed

lemma Do_assign_returned_final:
  assumes "Do_assign_returned names outputs output_dict s warnings = (outcome, s', warnings')"
    and "\<forall>name \<in> set names. map_of outputs (PStr name) \<noteq> None \<longrightarrow> first_of output_dict name \<noteq> None"
  shows "s' a =
     (case written_values names outputs output_dict a of
        [] \<Rightarrow> s a
      | v # vs \<Rightarrow> (s a)\<lparr>value := last (v # vs)\<rparr>)"
  using assms
proof (induction names arbitrary: s warnings)
  case Nil
  then show ?case by (simp add: written_values_def List.map_filter_simps)
next
  case (Cons n names)
  show ?case
  proof (cases "map_of outputs (PStr n)")
    case None
    with Cons.prems(1) have run:
      "Do_assign_returned names outputs output_dict s (warnings @ [MissingOutputWarning n]) =
         (outcome, s', warnings')"
      by simp
    have w: "written_values (n # names) outputs output_dict a =
        written_values names outputs output_dict a"
      using None by (simp add: written_values_def List.map_filter_simps)
    from Cons.IH [OF run] Cons.prems(2) show ?thesis by (simp add: w)
  next
    case (Some v)
    with Cons.prems(2) obtain b where fb: "first_of output_dict n = Some b" by auto
    then have fa: "first_artifact output_dict n = Inr b" by (simp add: first_artifact_Inr)
    let ?s1 = "s(b := (s b)\<lparr>value := v\<rparr>)"
    from Some fa Cons.prems(1) have run:
      "Do_assign_returned names outputs output_dict ?s1 warnings = (outcome, s', warnings')"
      by simp
    from Cons.IH [OF run] Cons.prems(2) have ih:
      "s' a =
         (case written_values names outputs output_dict a of
            [] \<Rightarrow> ?s1 a
          | w # ws \<Rightarrow> (?s1 a)\<lparr>value := last (w # ws)\<rparr>)"
      by simp
    show ?thesis
    proof (cases "b = a")
      case True
      have w: "written_values (n # names) outputs output_dict a =
          v # written_values names outputs output_dict a"
        using Some fb True by (simp add: written_values_def List.map_filter_simps)
      show ?thesis
        using ih True by (simp add: w split: list.splits)
    next
      case False
      have w: "written_values (n # names) outputs output_dict a =
          written_values names outputs output_dict a"
        using Some fb False by (simp add: written_values_def List.map_filter_simps)
      show ?thesis
        using ih False by (simp add: w split: list.splits)
    qed
  qed
qed

text \<open>
  Claim C3, as amended. Let the wrapped function return a mapping, and let every declared
  name that the mapping contains have a first artifact in \<^verbatim>\<open>output_dict\<close>. Then
  \<^verbatim>\<open>Do\<close> returns \<^verbatim>\<open>None\<close> without raising, and the log is one warning for each
  declared name that the mapping lacks, in declared order. After \<^verbatim>\<open>Do\<close>, every
  artifact is as the function left it, but that the \<^verbatim>\<open>value\<close> of an artifact which is
  the first output artifact of declared names that the mapping contains is the value of
  the last of these names. So, for a declared name whose first output artifact is not
  also the first artifact of another declared name that the mapping contains: if the
  mapping lacks the name, the artifact is as the function left it; if the mapping has the
  name, the artifact is as the function left it but for its \<^verbatim>\<open>value\<close>, which is the
  value of the name in the mapping.
\<close>

theorem Do_assigns_returned_values:
  assumes resolve:
      "Do_function_args (ARG_FORMATS self) input_dict output_dict s [] = Inr function_args"
    and call: "FUNCTION self function_args s = (Inr (PDict outputs), s1)"
    and present:
      "\<forall>name \<in> fst ` set (RETURNED_VALUES self).
         map_of outputs (PStr name) \<noteq> None \<longrightarrow> first_of output_dict name \<noteq> None"
    and result: "Do self input_dict output_dict exec_properties s = (outcome, s', warnings)"
  shows "outcome = Returned PNone \<and>
         warnings =
           map MissingOutputWarning
             (filter (\<lambda>name. map_of outputs (PStr name) = None) (map fst (RETURNED_VALUES self))) \<and>
         (\<forall>name \<in> fst ` set (RETURNED_VALUES self). \<forall>a.
            first_of output_dict name = Some a \<longrightarrow>
            (\<forall>other \<in> fst ` set (RETURNED_VALUES self).
               other \<noteq> name \<longrightarrow> map_of outputs (PStr other) \<noteq> None \<longrightarrow>
               first_of output_dict other \<noteq> Some a) \<longrightarrow>
            (case map_of outputs (PStr name) of
               None \<Rightarrow> MissingOutputWarning name \<in> set warnings \<and> s' a = s1 a
             | Some v \<Rightarrow> s' a = (s1 a)\<lparr>value := v\<rparr>)) \<and>
         (\<forall>a. s' a =
            (case written_values (map fst (RETURNED_VALUES self)) outputs output_dict a of
               [] \<Rightarrow> s1 a
             | v # vs \<Rightarrow> (s1 a)\<lparr>value := last (v # vs)\<rparr>))"
proof -
  let ?names = "map fst (RETURNED_VALUES self)"
  have run: "Do_assign_returned ?names outputs output_dict s1 [] = (outcome, s', warnings)"
    using resolve call result by (simp add: Do_call Do_check_returned_dict)
  have ok: "\<forall>name \<in> set ?names.
      map_of outputs (PStr name) \<noteq> None \<longrightarrow> first_of output_dict name \<noteq> None"
    using present by simp
  from Do_assign_returned_no_raise [OF ok, of s1 "[]"] run
  have oc: "outcome = Returned PNone"
    and ws: "warnings =
      map MissingOutputWarning (filter (\<lambda>name. map_of outputs (PStr name) = None) ?names)"
    by simp_all
  have each: "case map_of outputs (PStr name) of
        None \<Rightarrow> MissingOutputWarning name \<in> set warnings \<and> s' a = s1 a
      | Some v \<Rightarrow> s' a = (s1 a)\<lparr>value := v\<rparr>"
    if n: "name \<in> set ?names" and a: "first_of output_dict name = Some a"
      and others: "\<forall>other \<in> set ?names.
         other \<noteq> name \<longrightarrow> map_of outputs (PStr other) \<noteq> None \<longrightarrow>
         first_of output_dict other \<noteq> Some a"
    for name a
  proof (cases "map_of outputs (PStr name)")
    case None
    with others have "\<forall>other \<in> set ?names.
        map_of outputs (PStr other) \<noteq> None \<longrightarrow> first_of output_dict other \<noteq> Some a"
      by auto
    from Do_assign_returned_untouched [OF run this] have "s' a = s1 a" .
    moreover from None n have "MissingOutputWarning name \<in> set warnings"
      by (auto simp: ws)
    ultimately show ?thesis using None by simp
  next
    case (Some v)
    from Do_assign_returned_written [OF run ok Some a others] n Some
    show ?thesis by simp
  qed
  have final: "s' a =
      (case written_values ?names outputs output_dict a of
         [] \<Rightarrow> s1 a
       | v # vs \<Rightarrow> (s1 a)\<lparr>value := last (v # vs)\<rparr>)" for a
    by (rule Do_assign_returned_final [OF run ok])
  show ?thesis
    using oc ws each final by (simp del: set_map add: set_map [symmetric])
qed

theorem Do_assigns_returned_values_witness:
  "fst (Do (constant_executor (PDict [(PStr ''e'', PFloat 32)])
             [(''e'', PrimitiveKind PrimFloat), (''f'', PrimitiveKind PrimFloat)])
          Map.empty test_output_dict Map.empty test_store) = Returned PNone \<and>
   snd (snd (Do (constant_executor (PDict [(PStr ''e'', PFloat 32)])
             [(''e'', PrimitiveKind PrimFloat), (''f'', PrimitiveKind PrimFloat)])
          Map.empty test_output_dict Map.empty test_store)) = [MissingOutputWarning ''f''] \<and>
   fst (snd (Do (constant_executor (PDict [(PStr ''e'', PFloat 32)])
             [(''e'', PrimitiveKind PrimFloat), (''f'', PrimitiveKind PrimFloat)])
          Map.empty test_output_dict Map.empty test_store)) 4 =
     \<lparr>uri = ''/out/e'', value = PFloat 32\<rparr> \<and>
   fst (snd (Do (constant_executor (PDict [(PStr ''e'', PFloat 32)])
             [(''e'', PrimitiveKind PrimFloat), (''f'', PrimitiveKind PrimFloat)])
          Map.empty test_output_dict Map.empty test_store)) 5 =
     \<lparr>uri = ''/out/f'', value = PNone\<rparr>"
proof -
  let ?E = "constant_executor (PDict [(PStr ''e'', PFloat 32)])
             [(''e'', PrimitiveKind PrimFloat), (''f'', PrimitiveKind PrimFloat)]"
  obtain outcome s' warnings where
    r: "Do ?E Map.empty test_output_dict Map.empty test_store = (outcome, s', warnings)"
    by (cases "Do ?E Map.empty test_output_dict Map.empty test_store")
  have a: "Do_function_args (ARG_FORMATS ?E) Map.empty test_output_dict test_store [] = Inr []"
    by (simp add: constant_executor_def)
  have b: "FUNCTION ?E [] test_store = (Inr (PDict [(PStr ''e'', PFloat 32)]), test_store)"
    by (simp add: constant_executor_def)
  have c: "\<forall>name \<in> fst ` set (RETURNED_VALUES ?E).
      map_of [(PStr ''e'', PFloat 32)] (PStr name) \<noteq> None \<longrightarrow>
      first_of test_output_dict name \<noteq> None"
    by (simp add: constant_executor_def first_of_def test_output_dict_def)
  note t = Do_assigns_returned_values [OF a b c r]
  from t [THEN conjunct1] t [THEN conjunct2, THEN conjunct1]
    t [THEN conjunct2, THEN conjunct2, THEN conjunct1]
  have "outcome = Returned PNone \<and> warnings = [MissingOutputWarning ''f''] \<and>
      s' 4 = (test_store 4)\<lparr>value := PFloat 32\<rparr> \<and> s' 5 = test_store 5"
    by (simp add: constant_executor_def first_of_def test_output_dict_def)
  then show ?thesis
    by (simp add: r test_store_def)
qed

text \<open>
  The claim as it is stated fails when two declared names share their first output
  artifact: with the same object first under \<^verbatim>\<open>e\<close> and under \<^verbatim>\<open>f\<close>, and a returned
  mapping that has \<^verbatim>\<open>e\<close> but lacks \<^verbatim>\<open>f\<close>, the output artifact of the missing name
  \<^verbatim>\<open>f\<close> is not left unset: it holds the value of \<^verbatim>\<open>e\<close>.
\<close>

theorem Do_assigns_returned_values_counterexample:
  "map_of [(PStr ''e'', PFloat 1)] (PStr ''f'') = None \<and>
   [''e'' \<mapsto> [4::nat], ''f'' \<mapsto> [4]] ''f'' = Some [4] \<and>
   value (test_store 4) = PNone \<and>
   Do (constant_executor (PDict [(PStr ''e'', PFloat 1)])
         [(''e'', PrimitiveKind PrimFloat), (''f'', PrimitiveKind PrimFloat)])
      Map.empty [''e'' \<mapsto> [4], ''f'' \<mapsto> [4]] Map.empty test_store =
     (Returned PNone, test_store(4 := \<lparr>uri = ''/out/e'', value = PFloat 1\<rparr>),
      [MissingOutputWarning ''f''])"
  by (simp add: constant_executor_def Do_def Do_check_returned_def first_artifact_def
      test_store_def)

section \<open>The frame of \<^verbatim>\<open>Do\<close>\<close>

text \<open>
  Claim C7, as amended. Whenever \<^verbatim>\<open>Do\<close> returns, it returns \<^verbatim>\<open>None\<close>. When the
  resolution of the arguments raises, the store is unchanged. Otherwise, compared with
  the store that the call of the wrapped function leaves, every artifact keeps its
  \<^verbatim>\<open>uri\<close> and all its other fields, and an artifact whose \<^verbatim>\<open>value\<close> differs is the
  first element of \<^verbatim>\<open>output_dict[name]\<close> for a declared name that the returned mapping
  contains, and holds the value of such a name. The two dictionaries are arguments that
  \<^verbatim>\<open>Do\<close> only reads.
\<close>

theorem Do_frame:
  assumes result: "Do self input_dict output_dict exec_properties s = (outcome, s', warnings)"
  shows "(\<forall>v. outcome = Returned v \<longrightarrow> v = PNone) \<and>
         (\<forall>e. Do_function_args (ARG_FORMATS self) input_dict output_dict s [] = Inl e \<longrightarrow>
              outcome = Raised e \<and> s' = s) \<and>
         (\<forall>function_args r s1.
            Do_function_args (ARG_FORMATS self) input_dict output_dict s [] = Inr function_args \<longrightarrow>
            FUNCTION self function_args s = (r, s1) \<longrightarrow>
            (\<forall>a. uri (s' a) = uri (s1 a) \<and> artifact.more (s' a) = artifact.more (s1 a) \<and>
                 (value (s' a) \<noteq> value (s1 a) \<longrightarrow>
                    (\<exists>name \<in> fst ` set (RETURNED_VALUES self). \<exists>outputs v.
                       r = Inr (PDict outputs) \<and> map_of outputs (PStr name) = Some v \<and>
                       first_of output_dict name = Some a \<and> value (s' a) = v))))"
proof -
  let ?names = "map fst (RETURNED_VALUES self)"
  have none: "v = PNone" if "outcome = Returned v" for v
  proof (cases "Do_function_args (ARG_FORMATS self) input_dict output_dict s []")
    case (Inl e)
    with result that show ?thesis by (simp add: Do_def)
  next
    case (Inr function_args)
    obtain r s1 where call: "FUNCTION self function_args s = (r, s1)"
      by (cases "FUNCTION self function_args s")
    show ?thesis
    proof (cases r)
      case (Inl e)
      with Inr call result that show ?thesis by (simp add: Do_def)
    next
      case r: (Inr outputs)
      have chk: "Do_check_returned self output_dict outputs s1 = (outcome, s', warnings)"
        using Inr call r result by (simp add: Do_def)
      show ?thesis
      proof (cases "\<exists>kvs. outputs = PDict kvs")
        case True
        then obtain kvs where "outputs = PDict kvs" by blast
        with chk have run:
          "Do_assign_returned ?names kvs output_dict s1 [] = (outcome, s', warnings)"
          by (simp add: Do_check_returned_dict)
        have "fst (Do_assign_returned names kvs output_dict t ws) = Returned w \<Longrightarrow> w = PNone"
          for names t ws w
          by (induction names arbitrary: t ws) (auto split: option.splits sum.splits)
        from this [of ?names s1 "[]" v] run that show ?thesis by simp
      next
        case False
        then have "\<forall>kvs. outputs \<noteq> PDict kvs" by simp
        from Do_check_returned_not_dict [OF this, of self output_dict s1] chk that
        show ?thesis by simp
      qed
    qed
  qed
  have fail: "outcome = Raised e \<and> s' = s"
    if "Do_function_args (ARG_FORMATS self) input_dict output_dict s [] = Inl e" for e
    using that result by (simp add: Do_def)
  have frame: "uri (s' a) = uri (s1 a) \<and> artifact.more (s' a) = artifact.more (s1 a) \<and>
      (value (s' a) \<noteq> value (s1 a) \<longrightarrow>
         (\<exists>name \<in> fst ` set (RETURNED_VALUES self). \<exists>outputs v.
            r = Inr (PDict outputs) \<and> map_of outputs (PStr name) = Some v \<and>
            first_of output_dict name = Some a \<and> value (s' a) = v))"
    if args: "Do_function_args (ARG_FORMATS self) input_dict output_dict s [] = Inr function_args"
      and call: "FUNCTION self function_args s = (r, s1)"
    for function_args r s1 a
  proof (cases r)
    case (Inl e)
    with args call result show ?thesis by (simp add: Do_def)
  next
    case r: (Inr outputs)
    have chk: "Do_check_returned self output_dict outputs s1 = (outcome, s', warnings)"
      using args call r result by (simp add: Do_def)
    show ?thesis
    proof (cases "\<exists>kvs. outputs = PDict kvs")
      case True
      then obtain kvs where kvs: "outputs = PDict kvs" by blast
      with chk have run:
        "Do_assign_returned ?names kvs output_dict s1 [] = (outcome, s', warnings)"
        by (simp add: Do_check_returned_dict)
      from Do_assign_returned_frame [OF run, of a] show ?thesis
        by (auto simp: r kvs)
    next
      case False
      then have "\<forall>kvs. outputs \<noteq> PDict kvs" by simp
      from Do_check_returned_not_dict [OF this, of self output_dict s1] chk
      show ?thesis by simp
    qed
  qed
  show ?thesis using none fail frame by blast
qed

theorem Do_frame_witness:
  "fst (Do (constant_executor (PDict [(PStr ''e'', PFloat 32)])
             [(''e'', PrimitiveKind PrimFloat), (''f'', PrimitiveKind PrimFloat)])
          test_input_dict test_output_dict Map.empty test_store) = Returned PNone \<and>
   (\<forall>a. uri (fst (snd (Do (constant_executor (PDict [(PStr ''e'', PFloat 32)])
             [(''e'', PrimitiveKind PrimFloat), (''f'', PrimitiveKind PrimFloat)])
          test_input_dict test_output_dict Map.empty test_store)) a) = uri (test_store a)) \<and>
   fst (snd (Do (constant_executor (PDict [(PStr ''e'', PFloat 32)])
             [(''e'', PrimitiveKind PrimFloat), (''f'', PrimitiveKind PrimFloat)])
          test_input_dict test_output_dict Map.empty test_store)) 0 = test_store 0"
proof -
  let ?E = "constant_executor (PDict [(PStr ''e'', PFloat 32)])
             [(''e'', PrimitiveKind PrimFloat), (''f'', PrimitiveKind PrimFloat)]"
  obtain outcome s' warnings where
    r: "Do ?E test_input_dict test_output_dict Map.empty test_store = (outcome, s', warnings)"
    by (cases "Do ?E test_input_dict test_output_dict Map.empty test_store")
  have a: "Do_function_args (ARG_FORMATS ?E) test_input_dict test_output_dict test_store [] = Inr []"
    by (simp add: constant_executor_def)
  have b: "FUNCTION ?E [] test_store = (Inr (PDict [(PStr ''e'', PFloat 32)]), test_store)"
    by (simp add: constant_executor_def)
  have oc: "outcome = Returned PNone"
    using r Do_frame [OF r] by (cases outcome) (simp_all add: Do_def a b Do_check_returned_def constant_executor_def first_artifact_def test_output_dict_def)
  note fr = Do_frame [OF r, THEN conjunct2, THEN conjunct2, rule_format, OF a b]
  have u: "uri (s' x) = uri (test_store x)" for x
    using fr [of x] by simp
  have "value (s' 0) = value (test_store 0)"
    using fr [of 0] by (auto simp: constant_executor_def first_of_def test_output_dict_def)
  with fr [of 0] have "s' 0 = test_store 0" by (simp add: artifact.equality)
  with u oc show ?thesis by (simp add: r)
qed

text \<open>
  The claim as it is stated fails in two ways. When the same artifact object is the
  first element under a name of \<^verbatim>\<open>input_dict\<close> and under a declared name of
  \<^verbatim>\<open>output_dict\<close>, the assignment of line 84 changes an artifact that is reached
  through \<^verbatim>\<open>input_dict\<close>, although the wrapped function touches nothing. And a
  wrapped function that takes an input artifact is handed the object itself, so what it
  does to the object is seen through \<^verbatim>\<open>input_dict\<close> after \<^verbatim>\<open>Do\<close>.
\<close>

theorem Do_frame_counterexample:
  "[''x'' \<mapsto> [4::nat]] ''x'' = Some [4] \<and>
   test_output_dict ''e'' = Some [4] \<and>
   FUNCTION (constant_executor (PDict [(PStr ''e'', PFloat 1)]) [(''e'', PrimitiveKind PrimFloat)])
     [] test_store = (Inr (PDict [(PStr ''e'', PFloat 1)]), test_store) \<and>
   value (test_store 4) = PNone \<and>
   value (fst (snd (Do (constant_executor (PDict [(PStr ''e'', PFloat 1)])
                         [(''e'', PrimitiveKind PrimFloat)])
                      [''x'' \<mapsto> [4]] test_output_dict Map.empty test_store)) 4) = PFloat 1 \<and>
   test_input_dict ''a'' = Some [0] \<and>
   uri (test_store 0) = ''/in/a'' \<and>
   uri (fst (snd (Do relocating_executor test_input_dict test_output_dict Map.empty
                    test_store)) 0) = ''/moved''"
  by (simp add: constant_executor_def relocating_executor_def Do_def Do_check_returned_def
      first_artifact_def test_input_dict_def test_output_dict_def test_store_def)

section \<open>Lookups in the two dictionaries\<close>

lemma Do_function_args_append:
  "Do_function_args (pre @ rest) input_dict output_dict s [] =
     (case Do_function_args pre input_dict output_dict s [] of
        Inl e \<Rightarrow> Inl e
      | Inr vs \<Rightarrow>
          (case Do_function_args rest input_dict output_dict s [] of
             Inl e \<Rightarrow> Inl e | Inr ws \<Rightarrow> Inr (vs @ ws)))"
proof (induction pre)
  case Nil
  then show ?case by (simp split: sum.splits)
next
  case (Cons p pre)
  obtain name fmt where p: "p = (name, fmt)" by (cases p)
  have "Do_function_args ((name, fmt) # (pre @ rest)) input_dict output_dict s [] =
      (case Do_function_args ((name, fmt) # pre) input_dict output_dict s [] of
         Inl e \<Rightarrow> Inl e
       | Inr vs \<Rightarrow>
           (case Do_function_args rest input_dict output_dict s [] of
              Inl e \<Rightarrow> Inl e | Inr ws \<Rightarrow> Inr (vs @ ws)))"
    unfolding Do_function_args_Cons Cons.IH by (simp split: sum.splits)
  then show ?case by (simp add: p)
qed

lemma Do_function_args_error:
  "Do_function_args fmts input_dict output_dict s [] = Inl e \<Longrightarrow>
     \<exists>pre name fmt post vs.
        fmts = pre @ (name, fmt) # post \<and>
        Do_function_args pre input_dict output_dict s [] = Inr vs \<and>
        Do_resolve_arg input_dict output_dict s name fmt = Inl e"
proof (induction fmts)
  case Nil
  then show ?case by simp
next
  case (Cons p fmts)
  obtain name fmt where p: "p = (name, fmt)" by (cases p)
  show ?case
  proof (cases "Do_resolve_arg input_dict output_dict s name fmt")
    case (Inl e')
    with Cons.prems have "e' = e" by (simp add: p)
    with Inl have "p # fmts = [] @ (name, fmt) # fmts \<and>
        Do_function_args [] input_dict output_dict s [] = Inr [] \<and>
        Do_resolve_arg input_dict output_dict s name fmt = Inl e"
      by (simp add: p)
    then show ?thesis by blast
  next
    case (Inr v)
    with Cons.prems have "Do_function_args fmts input_dict output_dict s [] = Inl e"
      by (simp add: p Do_function_args_Cons del: Do_function_args.simps split: sum.splits)
    from Cons.IH [OF this] obtain pre n f post vs where
      "fmts = pre @ (n, f) # post"
      "Do_function_args pre input_dict output_dict s [] = Inr vs"
      "Do_resolve_arg input_dict output_dict s n f = Inl e"
      by blast
    with Inr have "p # fmts = ((name, fmt) # pre) @ (n, f) # post \<and>
        Do_function_args ((name, fmt) # pre) input_dict output_dict s [] = Inr (v # vs) \<and>
        Do_resolve_arg input_dict output_dict s n f = Inl e"
      by (simp add: p Do_function_args_Cons del: Do_function_args.simps)
    then show ?thesis by blast
  qed
qed

lemma Do_resolve_arg_error:
  "Do_resolve_arg input_dict output_dict s name fmt = Inl e \<Longrightarrow>
     (\<exists>x. fmt = NotAnArgFormat x \<and> e = UnknownArgumentFormat x) \<or>
     (\<not> entry_resolved input_dict output_dict (name, fmt) \<and> (e = KeyError name \<or> e = IndexError))"
  by (cases fmt)
     (auto simp: first_artifact_def first_of_def split: sum.splits option.splits list.splits)

lemma Do_resolve_arg_unresolved:
  "\<not> entry_resolved input_dict output_dict (name, fmt) \<Longrightarrow>
     \<exists>e. Do_resolve_arg input_dict output_dict s name fmt = Inl e \<and>
         (e = KeyError name \<or> e = IndexError)"
  by (cases fmt)
     (auto simp: first_artifact_def first_of_def split: sum.splits option.splits list.splits)

lemma first_artifact_take:
  "map_option (take 1) (d' name) = map_option (take 1) (d name) \<Longrightarrow>
     first_artifact d' name = first_artifact d name"
  by (cases "d name"; cases "d' name")
     (auto simp: first_artifact_def split: list.splits)

lemma Do_resolve_arg_take:
  assumes "\<forall>name. map_option (take 1) (input_dict' name) = map_option (take 1) (input_dict name)"
    and "\<forall>name. map_option (take 1) (output_dict' name) = map_option (take 1) (output_dict name)"
  shows "Do_resolve_arg input_dict' output_dict' s name fmt =
         Do_resolve_arg input_dict output_dict s name fmt"
  using assms first_artifact_take [of input_dict' name input_dict]
    first_artifact_take [of output_dict' name output_dict]
  by (cases fmt) simp_all

lemma Do_function_args_take:
  assumes "\<forall>name. map_option (take 1) (input_dict' name) = map_option (take 1) (input_dict name)"
    and "\<forall>name. map_option (take 1) (output_dict' name) = map_option (take 1) (output_dict name)"
  shows "Do_function_args fmts input_dict' output_dict' s acc =
         Do_function_args fmts input_dict output_dict s acc"
proof (induction fmts arbitrary: acc)
  case Nil
  then show ?case by simp
next
  case (Cons p fmts)
  obtain name fmt where p: "p = (name, fmt)" by (cases p)
  show ?case
    using Cons.IH Do_resolve_arg_take [OF assms, of s name fmt]
    by (simp add: p split: sum.splits)
qed

lemma Do_assign_returned_take:
  assumes "\<forall>name. map_option (take 1) (output_dict' name) = map_option (take 1) (output_dict name)"
  shows "Do_assign_returned names outputs output_dict' s warnings =
         Do_assign_returned names outputs output_dict s warnings"
proof (induction names arbitrary: s warnings)
  case Nil
  then show ?case by simp
next
  case (Cons name names)
  have fa: "first_artifact output_dict' name = first_artifact output_dict name"
    by (rule first_artifact_take) (use assms in simp)
  show ?case
  proof (cases "map_of outputs (PStr name)")
    case None
    with Cons.IH [of s "warnings @ [MissingOutputWarning name]"] show ?thesis by simp
  next
    case (Some v)
    show ?thesis
    proof (cases "first_artifact output_dict name")
      case (Inl e)
      with Some fa show ?thesis by simp
    next
      case (Inr a)
      have l: "Do_assign_returned (name # names) outputs output_dict' s warnings =
          Do_assign_returned names outputs output_dict' (s(a := (s a)\<lparr>value := v\<rparr>)) warnings"
        using Some Inr fa by simp
      have r: "Do_assign_returned (name # names) outputs output_dict s warnings =
          Do_assign_returned names outputs output_dict (s(a := (s a)\<lparr>value := v\<rparr>)) warnings"
        using Some Inr by simp
      show ?thesis unfolding l r by (rule Cons.IH)
    qed
  qed
qed

lemma Do_take:
  assumes "\<forall>name. map_option (take 1) (input_dict' name) = map_option (take 1) (input_dict name)"
    and "\<forall>name. map_option (take 1) (output_dict' name) = map_option (take 1) (output_dict name)"
  shows "Do self input_dict' output_dict' exec_properties s =
         Do self input_dict output_dict exec_properties s"
proof -
  have "Do_check_returned self output_dict' v t = Do_check_returned self output_dict v t" for v t
    by (simp add: Do_check_returned_def Do_assign_returned_take [OF assms(2)]
        split: pyval.splits)
  then show ?thesis
    by (simp add: Do_def Do_function_args_take [OF assms] split: sum.splits prod.splits)
qed

lemma Do_assign_returned_raises:
  assumes "\<forall>n \<in> set pre. map_of outputs (PStr n) \<noteq> None \<longrightarrow> first_of output_dict n \<noteq> None"
    and "map_of outputs (PStr name) = Some v"
    and "first_of output_dict name = None"
  shows "\<exists>e. fst (Do_assign_returned (pre @ name # post) outputs output_dict s warnings) = Raised e \<and>
             (e = KeyError name \<or> e = IndexError)"
  using assms(1)
proof (induction pre arbitrary: s warnings)
  case Nil
  from assms(3) have "first_artifact output_dict name = Inl (KeyError name) \<or>
      first_artifact output_dict name = Inl IndexError"
    by (auto simp: first_artifact_def first_of_def split: option.splits list.splits)
  with assms(2) show ?case by auto
next
  case (Cons n pre)
  show ?case
  proof (cases "map_of outputs (PStr n)")
    case None
    with Cons show ?thesis by simp
  next
    case (Some w)
    with Cons.prems obtain b where "first_of output_dict n = Some b" by auto
    then have "first_artifact output_dict n = Inr b" by (simp add: first_artifact_Inr)
    with Some Cons show ?thesis by simp
  qed
qed

lemma Do_resolve_arg_missing:
  "role_dict input_dict output_dict fmt = Some d \<Longrightarrow> d name = None \<Longrightarrow>
     Do_resolve_arg input_dict output_dict s name fmt = Inl (KeyError name)"
  by (cases fmt) (auto simp: first_artifact_def)

lemma Do_resolve_arg_empty:
  "role_dict input_dict output_dict fmt = Some d \<Longrightarrow> d name = Some [] \<Longrightarrow>
     Do_resolve_arg input_dict output_dict s name fmt = Inl IndexError"
  by (cases fmt) (auto simp: first_artifact_def)

lemma first_of_None: "first_of d name = None \<longleftrightarrow> d name = None \<or> d name = Some []"
  by (auto simp: first_of_def split: option.splits list.splits)

lemma entry_resolved_role_dict:
  "entry_resolved input_dict output_dict (name, fmt) \<longleftrightarrow>
     (\<forall>d. role_dict input_dict output_dict fmt = Some d \<longrightarrow> d name \<noteq> None \<and> d name \<noteq> Some [])"
  by (cases fmt) (auto simp: first_of_None)

lemma Do_assign_returned_raises_at:
  assumes "\<forall>n \<in> set pre. map_of outputs (PStr n) \<noteq> None \<longrightarrow> first_of output_dict n \<noteq> None"
    and "map_of outputs (PStr name) = Some v"
    and "first_artifact output_dict name = Inl e"
  shows "fst (Do_assign_returned (pre @ name # post) outputs output_dict s warnings) = Raised e"
  using assms(1)
proof (induction pre arbitrary: s warnings)
  case Nil
  with assms(2,3) show ?case by simp
next
  case (Cons n pre)
  show ?case
  proof (cases "map_of outputs (PStr n)")
    case None
    with Cons show ?thesis by simp
  next
    case (Some w)
    with Cons.prems obtain b where "first_of output_dict n = Some b" by auto
    then have "first_artifact output_dict n = Inr b" by (simp add: first_artifact_Inr)
    with Some Cons show ?thesis by simp
  qed
qed

lemma Do_assign_returned_agree:
  assumes "\<forall>n \<in> set names. map_of outputs (PStr n) \<noteq> None \<longrightarrow> output_dict' n = output_dict n"
  shows "Do_assign_returned names outputs output_dict' s warnings =
         Do_assign_returned names outputs output_dict s warnings"
  using assms
proof (induction names arbitrary: s warnings)
  case Nil
  then show ?case by simp
next
  case (Cons name names)
  from Cons.prems have ag: "\<forall>n \<in> set names.
      map_of outputs (PStr n) \<noteq> None \<longrightarrow> output_dict' n = output_dict n"
    by simp
  note ih = Cons.IH [OF ag]
  show ?case
  proof (cases "map_of outputs (PStr name)")
    case None
    with ih [of s "warnings @ [MissingOutputWarning name]"] show ?thesis by simp
  next
    case (Some v)
    with Cons.prems have "output_dict' name = output_dict name" by simp
    then have fa: "first_artifact output_dict' name = first_artifact output_dict name"
      by (simp add: first_artifact_def)
    show ?thesis
    proof (cases "first_artifact output_dict name")
      case (Inl e)
      with Some fa show ?thesis by simp
    next
      case (Inr a)
      have l: "Do_assign_returned (name # names) outputs output_dict' s warnings =
          Do_assign_returned names outputs output_dict' (s(a := (s a)\<lparr>value := v\<rparr>)) warnings"
        using Some Inr fa by simp
      have r: "Do_assign_returned (name # names) outputs output_dict s warnings =
          Do_assign_returned names outputs output_dict (s(a := (s a)\<lparr>value := v\<rparr>)) warnings"
        using Some Inr by simp
      show ?thesis unfolding l r by (rule ih)
    qed
  qed
qed

text \<open>
  Claim C9, as amended. Under the precondition on the two dictionaries, the resolution
  of the arguments fails only on an unknown argument format, never on a lookup or an
  index, and the assignment of the returned values never raises. The precondition fails
  exactly when a name of the argument formats is missing from the dictionary of its role
  or holds the empty sequence there, or a declared name is missing from
  \<^verbatim>\<open>output_dict\<close> or holds the empty sequence. \<^verbatim>\<open>Do\<close> consults only the first element
  of each sequence: two pairs of dictionaries that agree on the first elements give the
  same result; and it writes only to first elements: an artifact that is not as the call
  of the function left it is the first element under a declared name of
  \<^verbatim>\<open>output_dict\<close>. Without the precondition, the first entry of the argument formats that
  does not resolve, the entries before it resolving, raises \<^verbatim>\<open>KeyError\<close> with the name
  when the name is missing and \<^verbatim>\<open>IndexError\<close> when the sequence is empty, before the
  function is called; and the first declared name that the returned mapping contains
  and that has no first artifact in \<^verbatim>\<open>output_dict\<close> raises \<^verbatim>\<open>KeyError\<close> with the name
  when it is missing and \<^verbatim>\<open>IndexError\<close> when its sequence is empty. A declared name
  that the returned mapping does not contain is never looked up: \<^verbatim>\<open>Do\<close> returns
  whenever the declared names that the mapping contains have a first artifact, its result
  does not depend on what \<^verbatim>\<open>output_dict\<close> holds under the other declared names, and
  when the function returns no mapping, or a mapping without any declared name,
  \<^verbatim>\<open>Do\<close> returns and writes nothing.
\<close>

theorem Do_lookups:
  "(fully_resolved self input_dict output_dict \<longrightarrow>
      (\<forall>e. Do_function_args (ARG_FORMATS self) input_dict output_dict s [] = Inl e \<longrightarrow>
           (\<exists>x. e = UnknownArgumentFormat x)) \<and>
      (\<forall>outputs s1 warnings.
         fst (Do_assign_returned (map fst (RETURNED_VALUES self)) outputs output_dict s1 warnings) =
           Returned PNone)) \<and>
   (fully_resolved self input_dict output_dict \<longleftrightarrow>
      (\<forall>(name, fmt) \<in> set (ARG_FORMATS self). \<forall>d.
         role_dict input_dict output_dict fmt = Some d \<longrightarrow> d name \<noteq> None \<and> d name \<noteq> Some []) \<and>
      (\<forall>name \<in> fst ` set (RETURNED_VALUES self).
         output_dict name \<noteq> None \<and> output_dict name \<noteq> Some [])) \<and>
   ((\<forall>name. map_option (take 1) (input_dict' name) = map_option (take 1) (input_dict name)) \<and>
    (\<forall>name. map_option (take 1) (output_dict' name) = map_option (take 1) (output_dict name)) \<longrightarrow>
      Do self input_dict' output_dict' exec_properties s =
      Do self input_dict output_dict exec_properties s) \<and>
   (\<forall>pre name fmt post vs d.
      ARG_FORMATS self = pre @ (name, fmt) # post \<and>
      Do_function_args pre input_dict output_dict s [] = Inr vs \<and>
      role_dict input_dict output_dict fmt = Some d \<longrightarrow>
      (d name = None \<longrightarrow>
         Do self input_dict output_dict exec_properties s = (Raised (KeyError name), s, [])) \<and>
      (d name = Some [] \<longrightarrow>
         Do self input_dict output_dict exec_properties s = (Raised IndexError, s, []))) \<and>
   (\<forall>function_args outputs s1 pre name post v.
      Do_function_args (ARG_FORMATS self) input_dict output_dict s [] = Inr function_args \<and>
      FUNCTION self function_args s = (Inr (PDict outputs), s1) \<and>
      map fst (RETURNED_VALUES self) = pre @ name # post \<and>
      (\<forall>n \<in> set pre. map_of outputs (PStr n) \<noteq> None \<longrightarrow> first_of output_dict n \<noteq> None) \<and>
      map_of outputs (PStr name) = Some v \<longrightarrow>
      (output_dict name = None \<longrightarrow>
         fst (Do self input_dict output_dict exec_properties s) = Raised (KeyError name)) \<and>
      (output_dict name = Some [] \<longrightarrow>
         fst (Do self input_dict output_dict exec_properties s) = Raised IndexError)) \<and>
   (\<forall>function_args r s1.
      Do_function_args (ARG_FORMATS self) input_dict output_dict s [] = Inr function_args \<and>
      FUNCTION self function_args s = (Inr r, s1) \<and>
      (\<forall>outputs. r = PDict outputs \<longrightarrow>
         (\<forall>n \<in> fst ` set (RETURNED_VALUES self).
            map_of outputs (PStr n) \<noteq> None \<longrightarrow> first_of output_dict n \<noteq> None)) \<longrightarrow>
      fst (Do self input_dict output_dict exec_properties s) = Returned PNone) \<and>
   (\<forall>function_args r s1.
      Do_function_args (ARG_FORMATS self) input_dict output_dict s [] = Inr function_args \<and>
      Do_function_args (ARG_FORMATS self) input_dict output_dict' s [] = Inr function_args \<and>
      FUNCTION self function_args s = (Inr r, s1) \<and>
      (\<forall>outputs. r = PDict outputs \<longrightarrow>
         (\<forall>n \<in> fst ` set (RETURNED_VALUES self).
            map_of outputs (PStr n) \<noteq> None \<longrightarrow> output_dict' n = output_dict n)) \<longrightarrow>
      Do self input_dict output_dict' exec_properties s =
      Do self input_dict output_dict exec_properties s) \<and>
   (\<forall>function_args r s1.
      Do_function_args (ARG_FORMATS self) input_dict output_dict s [] = Inr function_args \<and>
      FUNCTION self function_args s = (Inr r, s1) \<and>
      (\<forall>outputs. r = PDict outputs \<longrightarrow>
         (\<forall>n \<in> fst ` set (RETURNED_VALUES self). map_of outputs (PStr n) = None)) \<longrightarrow>
      fst (Do self input_dict output_dict exec_properties s) = Returned PNone \<and>
      fst (snd (Do self input_dict output_dict exec_properties s)) = s1) \<and>
   (\<forall>function_args r s1 a.
      Do_function_args (ARG_FORMATS self) input_dict output_dict s [] = Inr function_args \<and>
      FUNCTION self function_args s = (r, s1) \<and>
      fst (snd (Do self input_dict output_dict exec_properties s)) a \<noteq> s1 a \<longrightarrow>
      (\<exists>name \<in> fst ` set (RETURNED_VALUES self). first_of output_dict name = Some a))"
proof -
  let ?names = "map fst (RETURNED_VALUES self)"
  have A1: "\<exists>x. e = UnknownArgumentFormat x"
    if fr: "fully_resolved self input_dict output_dict"
      and err: "Do_function_args (ARG_FORMATS self) input_dict output_dict s [] = Inl e" for e
  proof -
    from Do_function_args_error [OF err] obtain pre name fmt post vs where
      split: "ARG_FORMATS self = pre @ (name, fmt) # post" and
      e: "Do_resolve_arg input_dict output_dict s name fmt = Inl e"
      by blast
    from fr split have "entry_resolved input_dict output_dict (name, fmt)"
      by (simp add: fully_resolved_def)
    with Do_resolve_arg_error [OF e] show ?thesis by blast
  qed
  have A2: "fst (Do_assign_returned ?names outputs output_dict s1 warnings) = Returned PNone"
    if fr: "fully_resolved self input_dict output_dict" for outputs s1 warnings
  proof -
    from fr have "\<forall>name \<in> set ?names.
        map_of outputs (PStr name) \<noteq> None \<longrightarrow> first_of output_dict name \<noteq> None"
      by (simp add: fully_resolved_def list_all_iff)
    then show ?thesis by (rule Do_assign_returned_no_raise [THEN conjunct1])
  qed
  have P: "fully_resolved self input_dict output_dict \<longleftrightarrow>
      (\<forall>(name, fmt) \<in> set (ARG_FORMATS self). \<forall>d.
         role_dict input_dict output_dict fmt = Some d \<longrightarrow> d name \<noteq> None \<and> d name \<noteq> Some []) \<and>
      (\<forall>name \<in> fst ` set (RETURNED_VALUES self).
         output_dict name \<noteq> None \<and> output_dict name \<noteq> Some [])"
    by (auto simp: fully_resolved_def list_all_iff entry_resolved_role_dict first_of_None)
  have B: "Do self input_dict' output_dict' exec_properties s =
      Do self input_dict output_dict exec_properties s"
    if "\<forall>name. map_option (take 1) (input_dict' name) = map_option (take 1) (input_dict name)"
      and "\<forall>name. map_option (take 1) (output_dict' name) = map_option (take 1) (output_dict name)"
    using that by (rule Do_take)
  have C: "Do self input_dict output_dict exec_properties s = (Raised e, s, [])"
    if split: "ARG_FORMATS self = pre @ (name, fmt) # post"
      and pre: "Do_function_args pre input_dict output_dict s [] = Inr vs"
      and e: "Do_resolve_arg input_dict output_dict s name fmt = Inl e"
    for pre name fmt post vs e
  proof -
    have "Do_function_args (ARG_FORMATS self) input_dict output_dict s [] = Inl e"
      unfolding split Do_function_args_append Do_function_args_Cons
      by (simp add: pre e)
    then show ?thesis by (simp add: Do_def)
  qed
  have D: "fst (Do self input_dict output_dict exec_properties s) = Raised e"
    if args: "Do_function_args (ARG_FORMATS self) input_dict output_dict s [] = Inr function_args"
      and call: "FUNCTION self function_args s = (Inr (PDict outputs), s1)"
      and split: "?names = pre @ name # post"
      and pre: "\<forall>n \<in> set pre. map_of outputs (PStr n) \<noteq> None \<longrightarrow> first_of output_dict n \<noteq> None"
      and v: "map_of outputs (PStr name) = Some v"
      and e: "first_artifact output_dict name = Inl e"
    for function_args outputs s1 pre name post v e
  proof -
    have "Do self input_dict output_dict exec_properties s =
        Do_assign_returned (pre @ name # post) outputs output_dict s1 []"
      using args call split by (simp add: Do_call Do_check_returned_dict)
    with Do_assign_returned_raises_at [OF pre v e, of post s1 "[]"] show ?thesis by simp
  qed
  have F: "fst (Do self input_dict output_dict exec_properties s) = Returned PNone"
    if args: "Do_function_args (ARG_FORMATS self) input_dict output_dict s [] = Inr function_args"
      and call: "FUNCTION self function_args s = (Inr r, s1)"
      and ok: "\<forall>outputs. r = PDict outputs \<longrightarrow>
         (\<forall>n \<in> fst ` set (RETURNED_VALUES self).
            map_of outputs (PStr n) \<noteq> None \<longrightarrow> first_of output_dict n \<noteq> None)"
    for function_args r s1
  proof (cases "\<exists>outputs. r = PDict outputs")
    case True
    then obtain outputs where r: "r = PDict outputs" by blast
    with ok have "\<forall>n \<in> set ?names.
        map_of outputs (PStr n) \<noteq> None \<longrightarrow> first_of output_dict n \<noteq> None"
      by simp
    then have "fst (Do_assign_returned ?names outputs output_dict s1 []) = Returned PNone"
      by (rule Do_assign_returned_no_raise [THEN conjunct1])
    with args call r show ?thesis by (simp add: Do_call Do_check_returned_dict)
  next
    case False
    then have "\<forall>kvs. r \<noteq> PDict kvs" by simp
    from Do_check_returned_not_dict [OF this, of self output_dict s1] args call
    show ?thesis by (simp add: Do_call)
  qed
  have G: "Do self input_dict output_dict' exec_properties s =
      Do self input_dict output_dict exec_properties s"
    if args: "Do_function_args (ARG_FORMATS self) input_dict output_dict s [] = Inr function_args"
      and args': "Do_function_args (ARG_FORMATS self) input_dict output_dict' s [] = Inr function_args"
      and call: "FUNCTION self function_args s = (Inr r, s1)"
      and agree: "\<forall>outputs. r = PDict outputs \<longrightarrow>
         (\<forall>n \<in> fst ` set (RETURNED_VALUES self).
            map_of outputs (PStr n) \<noteq> None \<longrightarrow> output_dict' n = output_dict n)"
    for function_args r s1
  proof (cases "\<exists>outputs. r = PDict outputs")
    case True
    then obtain outputs where r: "r = PDict outputs" by blast
    with agree have "\<forall>n \<in> set ?names.
        map_of outputs (PStr n) \<noteq> None \<longrightarrow> output_dict' n = output_dict n"
      by simp
    from Do_assign_returned_agree [OF this, of s1 "[]"] args args' call r
    show ?thesis by (simp add: Do_call Do_check_returned_dict)
  next
    case False
    then have nd: "\<forall>kvs. r \<noteq> PDict kvs" by simp
    from Do_check_returned_not_dict [OF nd, of self output_dict s1]
      Do_check_returned_not_dict [OF nd, of self output_dict' s1] args args' call
    show ?thesis by (simp add: Do_call)
  qed
  have E: "fst (Do self input_dict output_dict exec_properties s) = Returned PNone \<and>
      fst (snd (Do self input_dict output_dict exec_properties s)) = s1"
    if args: "Do_function_args (ARG_FORMATS self) input_dict output_dict s [] = Inr function_args"
      and call: "FUNCTION self function_args s = (Inr r, s1)"
      and absent: "\<forall>outputs. r = PDict outputs \<longrightarrow>
         (\<forall>n \<in> fst ` set (RETURNED_VALUES self). map_of outputs (PStr n) = None)"
    for function_args r s1
  proof (cases "\<exists>outputs. r = PDict outputs")
    case True
    then obtain outputs where r: "r = PDict outputs" by blast
    with absent have "\<forall>n \<in> set ?names. map_of outputs (PStr n) = None" by simp
    from Do_assign_returned_absent [OF this, of output_dict s1 "[]"] args call r
    show ?thesis by (simp add: Do_call Do_check_returned_dict)
  next
    case False
    then have "\<forall>kvs. r \<noteq> PDict kvs" by simp
    from Do_check_returned_not_dict [OF this, of self output_dict s1] args call
    show ?thesis by (simp add: Do_call)
  qed
  have W: "\<exists>name \<in> fst ` set (RETURNED_VALUES self). first_of output_dict name = Some a"
    if args: "Do_function_args (ARG_FORMATS self) input_dict output_dict s [] = Inr function_args"
      and call: "FUNCTION self function_args s = (r, s1)"
      and changed: "fst (snd (Do self input_dict output_dict exec_properties s)) a \<noteq> s1 a"
    for function_args r s1 a
  proof (cases r)
    case (Inl e)
    with args call changed show ?thesis by (simp add: Do_def)
  next
    case r: (Inr v)
    have d: "Do self input_dict output_dict exec_properties s =
        Do_check_returned self output_dict v s1"
      using args call r by (simp add: Do_call)
    show ?thesis
    proof (cases "\<exists>outputs. v = PDict outputs")
      case True
      then obtain outputs where v: "v = PDict outputs" by blast
      obtain outcome s' warnings where run:
        "Do_assign_returned ?names outputs output_dict s1 [] = (outcome, s', warnings)"
        by (cases "Do_assign_returned ?names outputs output_dict s1 []")
      from changed have ne: "s' a \<noteq> s1 a"
        by (simp add: d v Do_check_returned_dict run)
      from Do_assign_returned_frame [OF run, of a] have
        "uri (s' a) = uri (s1 a)" "artifact.more (s' a) = artifact.more (s1 a)"
        "value (s' a) \<noteq> value (s1 a) \<longrightarrow>
           (\<exists>name \<in> set ?names. first_of output_dict name = Some a)"
        by auto
      with ne show ?thesis by (auto simp: artifact.equality)
    next
      case False
      then have "\<forall>kvs. v \<noteq> PDict kvs" by simp
      from Do_check_returned_not_dict [OF this, of self output_dict s1] changed
      show ?thesis by (simp add: d)
    qed
  qed
  show ?thesis
    apply (intro conjI impI allI)
    subgoal for e by (rule A1)
    subgoal for outputs s1 warnings by (rule A2)
    subgoal by (rule P)
    subgoal by (rule B) blast+
    subgoal for pre name fmt post vs d
      by (rule C [of pre name fmt post vs]) (auto simp: Do_resolve_arg_missing)
    subgoal for pre name fmt post vs d
      by (rule C [of pre name fmt post vs]) (auto simp: Do_resolve_arg_empty)
    subgoal for function_args outputs s1 pre name post v
      by (rule D [of function_args outputs s1 pre name post v])
         (auto simp: first_artifact_def)
    subgoal for function_args outputs s1 pre name post v
      by (rule D [of function_args outputs s1 pre name post v])
         (auto simp: first_artifact_def)
    subgoal for function_args r s1 by (rule F [of function_args r s1]) blast+
    subgoal for function_args r s1 by (rule G [of function_args r s1]) blast+
    subgoal for function_args r s1 using E [of function_args r s1] by blast
    subgoal for function_args r s1 using E [of function_args r s1] by blast
    subgoal for function_args r s1 a by (rule W [of function_args r s1 a]) blast+
    done
qed

theorem Do_lookups_witness:
  "fully_resolved partial_output_executor test_input_dict test_output_dict \<and>
   fst (Do partial_output_executor test_input_dict test_output_dict Map.empty test_store) =
     Returned PNone \<and>
   (\<forall>outputs s1 warnings.
      fst (Do_assign_returned (map fst (RETURNED_VALUES partial_output_executor)) outputs
             test_output_dict s1 warnings) = Returned PNone) \<and>
   Do partial_output_executor (test_input_dict(''a'' \<mapsto> [0, 9])) test_output_dict Map.empty
      test_store =
     Do partial_output_executor test_input_dict test_output_dict Map.empty test_store \<and>
   Do partial_output_executor Map.empty test_output_dict Map.empty test_store =
     (Raised (KeyError ''a''), test_store, []) \<and>
   Do partial_output_executor [''a'' \<mapsto> []] test_output_dict Map.empty test_store =
     (Raised IndexError, test_store, []) \<and>
   fst (Do partial_output_executor test_input_dict Map.empty Map.empty test_store) =
     Raised (KeyError ''e'') \<and>
   fst (Do partial_output_executor test_input_dict [''e'' \<mapsto> []] Map.empty test_store) =
     Raised IndexError \<and>
   \<not> fully_resolved partial_output_executor test_input_dict [''e'' \<mapsto> [4]] \<and>
   fst (Do partial_output_executor test_input_dict [''e'' \<mapsto> [4]] Map.empty test_store) =
     Returned PNone \<and>
   Do partial_output_executor test_input_dict [''e'' \<mapsto> [4]] Map.empty test_store =
     Do partial_output_executor test_input_dict test_output_dict Map.empty test_store"
proof -
  let ?E = partial_output_executor
  note L = Do_lookups [where self = ?E and s = test_store and exec_properties = Map.empty]
  note defs = partial_output_executor_def test_input_dict_def test_output_dict_def first_of_def
    first_artifact_def test_store_def
  have args: "Do_function_args (ARG_FORMATS ?E) test_input_dict d test_store [] = Inr [PInt 10]"
    for d
    by (simp add: defs)
  have call: "FUNCTION ?E [PInt 10] test_store = (Inr (PDict [(PStr ''e'', PFloat 1)]), test_store)"
    by (simp add: defs)
  have w1: "fully_resolved ?E test_input_dict test_output_dict"
    by (simp add: fully_resolved_def defs)
  have w2: "fst (Do ?E test_input_dict test_output_dict Map.empty test_store) = Returned PNone"
    by (rule L [where input_dict = test_input_dict and output_dict = test_output_dict,
          THEN conjunct2, THEN conjunct2, THEN conjunct2, THEN conjunct2, THEN conjunct2,
          THEN conjunct1, rule_format,
          of "[PInt 10]" "PDict [(PStr ''e'', PFloat 1)]" test_store])
       (simp add: args call, simp add: defs)
  have w3: "\<forall>outputs s1 warnings.
      fst (Do_assign_returned (map fst (RETURNED_VALUES ?E)) outputs test_output_dict s1 warnings) =
        Returned PNone"
    using L [where input_dict = test_input_dict and output_dict = test_output_dict,
        THEN conjunct1] w1
    by blast
  have w4: "Do ?E (test_input_dict(''a'' \<mapsto> [0, 9])) test_output_dict Map.empty test_store =
      Do ?E test_input_dict test_output_dict Map.empty test_store"
    by (rule L [where input_dict = test_input_dict and output_dict = test_output_dict
          and input_dict' = "test_input_dict(''a'' \<mapsto> [0, 9])" and output_dict' = test_output_dict,
          THEN conjunct2, THEN conjunct2, THEN conjunct1, rule_format])
       (simp add: test_input_dict_def)
  have w5: "Do ?E Map.empty test_output_dict Map.empty test_store =
      (Raised (KeyError ''a''), test_store, [])"
    using L [where input_dict = Map.empty and output_dict = test_output_dict,
        THEN conjunct2, THEN conjunct2, THEN conjunct2, THEN conjunct1, rule_format,
        of "[]" "''a''" ARTIFACT_VALUE "[]" "[]" Map.empty]
    by (simp add: partial_output_executor_def)
  have w6: "Do ?E [''a'' \<mapsto> []] test_output_dict Map.empty test_store =
      (Raised IndexError, test_store, [])"
    using L [where input_dict = "[''a'' \<mapsto> []]" and output_dict = test_output_dict,
        THEN conjunct2, THEN conjunct2, THEN conjunct2, THEN conjunct1, rule_format,
        of "[]" "''a''" ARTIFACT_VALUE "[]" "[]" "[''a'' \<mapsto> []]"]
    by (simp add: partial_output_executor_def)
  have w7: "fst (Do ?E test_input_dict Map.empty Map.empty test_store) = Raised (KeyError ''e'')"
    using L [where input_dict = test_input_dict and output_dict = Map.empty,
        THEN conjunct2, THEN conjunct2, THEN conjunct2, THEN conjunct2, THEN conjunct1,
        rule_format,
        of "[PInt 10]" "[(PStr ''e'', PFloat 1)]" test_store "[]" "''e''" "[''f'']" "PFloat 1"]
      args [of Map.empty] call
    by (simp add: partial_output_executor_def)
  have w8: "fst (Do ?E test_input_dict [''e'' \<mapsto> []] Map.empty test_store) = Raised IndexError"
    using L [where input_dict = test_input_dict and output_dict = "[''e'' \<mapsto> []]",
        THEN conjunct2, THEN conjunct2, THEN conjunct2, THEN conjunct2, THEN conjunct1,
        rule_format,
        of "[PInt 10]" "[(PStr ''e'', PFloat 1)]" test_store "[]" "''e''" "[''f'']" "PFloat 1"]
      args [of "[''e'' \<mapsto> []]"] call
    by (simp add: partial_output_executor_def)
  have w9: "\<not> fully_resolved ?E test_input_dict [''e'' \<mapsto> [4]]"
    by (simp add: fully_resolved_def defs)
  have w10: "fst (Do ?E test_input_dict [''e'' \<mapsto> [4]] Map.empty test_store) = Returned PNone"
    by (rule L [where input_dict = test_input_dict and output_dict = "[''e'' \<mapsto> [4]]",
          THEN conjunct2, THEN conjunct2, THEN conjunct2, THEN conjunct2, THEN conjunct2,
          THEN conjunct1, rule_format,
          of "[PInt 10]" "PDict [(PStr ''e'', PFloat 1)]" test_store])
       (simp add: args call, simp add: defs)
  have w11: "Do ?E test_input_dict [''e'' \<mapsto> [4]] Map.empty test_store =
      Do ?E test_input_dict test_output_dict Map.empty test_store"
    by (rule L [where input_dict = test_input_dict and output_dict = test_output_dict
          and output_dict' = "[''e'' \<mapsto> [4]]",
          THEN conjunct2, THEN conjunct2, THEN conjunct2, THEN conjunct2, THEN conjunct2,
          THEN conjunct2, THEN conjunct1, rule_format,
          of "[PInt 10]" "PDict [(PStr ''e'', PFloat 1)]" test_store])
       (simp add: args call, simp add: defs)
  from w1 w2 w3 w4 w5 w6 w7 w8 w9 w10 w11 show ?thesis by blast
qed

text \<open>
  The claim as it is stated fails in its last part: the precondition can fail and
  \<^verbatim>\<open>Do\<close> still return. A function with the declared output \<^verbatim>\<open>e\<close> that returns
  \<^verbatim>\<open>None\<close>, run with an empty \<^verbatim>\<open>output_dict\<close>, logs the missing output and
  returns.
\<close>

theorem Do_lookups_counterexample:
  "\<not> fully_resolved (constant_executor PNone [(''e'', PrimitiveKind PrimFloat)])
       Map.empty Map.empty \<and>
   Do (constant_executor PNone [(''e'', PrimitiveKind PrimFloat)])
      Map.empty Map.empty Map.empty test_store =
     (Returned PNone, test_store, [MissingOutputWarning ''e''])"
  by (simp add: fully_resolved_def constant_executor_def first_of_def Do_def
      Do_check_returned_def)

section \<open>Unknown argument formats\<close>

lemma Do_function_args_unknown:
  assumes "(name, NotAnArgFormat x) \<in> set fmts"
  shows "\<exists>e. Do_function_args fmts input_dict output_dict s [] = Inl e"
proof (cases "Do_function_args fmts input_dict output_dict s []")
  case (Inl e)
  then show ?thesis by blast
next
  case (Inr args)
  from Do_function_args_sound [OF Inr] have
    "spec_argument input_dict output_dict s (name, NotAnArgFormat x) \<in> Some ` set args"
    using assms by (metis image_eqI list.set_map)
  then show ?thesis by auto
qed

lemma Do_function_args_error_kind:
  assumes "Do_function_args fmts input_dict output_dict s [] = Inl e"
  shows "(\<exists>n y. (n, NotAnArgFormat y) \<in> set fmts \<and> e = UnknownArgumentFormat y) \<or>
         (\<exists>n. e = KeyError n) \<or> e = IndexError"
proof -
  from Do_function_args_error [OF assms] obtain pre name fmt post vs where
    split: "fmts = pre @ (name, fmt) # post" and
    e: "Do_resolve_arg input_dict output_dict s name fmt = Inl e"
    by blast
  from Do_resolve_arg_error [OF e] split show ?thesis by auto
qed

lemma classify_param_known: "classify_param ann = Some (is_input, kind, fmt) \<Longrightarrow> fmt \<noteq> NotAnArgFormat x"
  by (cases ann) auto

lemma classify_params_known:
  "classify_params params = Inr (inputs, outputs, arg_formats) \<Longrightarrow>
     (name, NotAnArgFormat x) \<notin> set arg_formats"
proof (induction params arbitrary: inputs outputs arg_formats)
  case Nil
  then show ?case by simp
next
  case (Cons p params)
  obtain n ann where p: "p = (n, ann)" by (cases p)
  from Cons.prems obtain is_input kind fmt i' o' f' where
    c: "classify_param ann = Some (is_input, kind, fmt)" and
    r: "classify_params params = Inr (i', o', f')" and
    f: "arg_formats = (n, fmt) # f'"
    by (auto simp: p split: option.splits sum.splits)
  from Cons.IH [OF r] classify_param_known [OF c] show ?case by (auto simp: f)
qed

text \<open>
  Claim C6, as amended. When the stored argument formats contain a role outside the five,
  the resolution of the arguments raises, so \<^verbatim>\<open>Do\<close> raises before the wrapped function
  is called and leaves the store as it was: the error names an unknown format of the
  list, or it is the \<^verbatim>\<open>KeyError\<close> or \<^verbatim>\<open>IndexError\<close> of an earlier entry. When every
  entry before the first unknown role resolves, the error names that role. The argument
  formats of a successful classification contain no role outside the five, so for them
  the resolution never raises this error.
\<close>

theorem Do_unknown_argument_format:
  "(\<forall>name x. (name, NotAnArgFormat x) \<in> set (ARG_FORMATS self) \<longrightarrow>
      (\<exists>e. Do_function_args (ARG_FORMATS self) input_dict output_dict s [] = Inl e \<and>
           Do self input_dict output_dict exec_properties s = (Raised e, s, []) \<and>
           ((\<exists>n y. (n, NotAnArgFormat y) \<in> set (ARG_FORMATS self) \<and> e = UnknownArgumentFormat y) \<or>
            (\<exists>n. e = KeyError n) \<or> e = IndexError))) \<and>
   (\<forall>pre name x post vs.
      ARG_FORMATS self = pre @ (name, NotAnArgFormat x) # post \<and>
      Do_function_args pre input_dict output_dict s [] = Inr vs \<longrightarrow>
      Do self input_dict output_dict exec_properties s = (Raised (UnknownArgumentFormat x), s, [])) \<and>
   (\<forall>func inputs outputs arg_formats returned_values.
      parse_typehint_component_function func = Inr (inputs, outputs, arg_formats, returned_values) \<longrightarrow>
      (\<forall>name x. (name, NotAnArgFormat x) \<notin> set arg_formats) \<and>
      (\<forall>x. Do_function_args arg_formats input_dict output_dict s [] \<noteq>
              Inl (UnknownArgumentFormat x)))"
proof -
  have one: "\<exists>e. Do_function_args (ARG_FORMATS self) input_dict output_dict s [] = Inl e \<and>
           Do self input_dict output_dict exec_properties s = (Raised e, s, []) \<and>
           ((\<exists>n y. (n, NotAnArgFormat y) \<in> set (ARG_FORMATS self) \<and> e = UnknownArgumentFormat y) \<or>
            (\<exists>n. e = KeyError n) \<or> e = IndexError)"
    if "(name, NotAnArgFormat x) \<in> set (ARG_FORMATS self)" for name x
  proof -
    from Do_function_args_unknown [OF that] obtain e where
      e: "Do_function_args (ARG_FORMATS self) input_dict output_dict s [] = Inl e"
      by blast
    then have "Do self input_dict output_dict exec_properties s = (Raised e, s, [])"
      by (simp add: Do_def)
    with e Do_function_args_error_kind [OF e] show ?thesis by blast
  qed
  have two: "Do self input_dict output_dict exec_properties s =
      (Raised (UnknownArgumentFormat x), s, [])"
    if split: "ARG_FORMATS self = pre @ (name, NotAnArgFormat x) # post"
      and pre: "Do_function_args pre input_dict output_dict s [] = Inr vs"
    for pre name x post vs
  proof -
    have "Do_function_args (ARG_FORMATS self) input_dict output_dict s [] =
        Inl (UnknownArgumentFormat x)"
      unfolding split Do_function_args_append Do_function_args_Cons
      by (simp add: pre)
    then show ?thesis by (simp add: Do_def)
  qed
  have three: "(\<forall>name x. (name, NotAnArgFormat x) \<notin> set arg_formats) \<and>
      (\<forall>x. Do_function_args arg_formats input_dict output_dict s [] \<noteq>
              Inl (UnknownArgumentFormat x))"
    if p: "parse_typehint_component_function func =
        Inr (inputs, outputs, arg_formats, returned_values)"
    for func :: "'b py_function" and inputs outputs arg_formats returned_values
  proof -
    from p have c: "classify_params (func_params func) = Inr (inputs, outputs, arg_formats)"
      by (auto simp: parse_typehint_component_function_def
          split: sum.splits return_annotation.splits)
    have known: "(name, NotAnArgFormat x) \<notin> set arg_formats" for name x
      by (rule classify_params_known [OF c])
    have "Do_function_args arg_formats input_dict output_dict s [] \<noteq>
        Inl (UnknownArgumentFormat x)" for x
    proof
      assume "Do_function_args arg_formats input_dict output_dict s [] =
          Inl (UnknownArgumentFormat x)"
      from Do_function_args_error_kind [OF this] known show False by auto
    qed
    with known show ?thesis by blast
  qed
  show ?thesis
    apply (intro conjI impI allI)
    subgoal for name x by (rule one)
    subgoal for pre name x post vs by (rule two [of pre name x post vs]) blast+
    subgoal for func inputs outputs arg_formats returned_values name x
      using three [of func inputs outputs arg_formats returned_values] by blast
    subgoal for func inputs outputs arg_formats returned_values x
      using three [of func inputs outputs arg_formats returned_values] by blast
    done
qed

theorem Do_unknown_argument_format_witness:
  "Do unknown_format_executor test_input_dict test_output_dict Map.empty test_store =
     (Raised (UnknownArgumentFormat (PInt 6)), test_store, []) \<and>
   (\<exists>e. Do unknown_format_executor Map.empty test_output_dict Map.empty test_store =
      (Raised e, test_store, [])) \<and>
   parse_typehint_component_function (simple_component (\<lambda>a b. Inl TypeError) :: unit py_function) =
     Inr ([(''a'', PrimitiveKind PrimInt), (''b'', PrimitiveKind PrimInt),
           (''c'', PrimitiveKind PrimText), (''d'', PrimitiveKind PrimBytes)], [],
          [(''a'', ARTIFACT_VALUE), (''b'', ARTIFACT_VALUE), (''c'', ARTIFACT_VALUE),
           (''d'', ARTIFACT_VALUE)],
          [(''e'', PrimitiveKind PrimFloat), (''f'', PrimitiveKind PrimFloat)]) \<and>
   (\<forall>x. Do_function_args
          [(''a'', ARTIFACT_VALUE), (''b'', ARTIFACT_VALUE), (''c'', ARTIFACT_VALUE),
           (''d'', ARTIFACT_VALUE)] Map.empty test_output_dict test_store [] \<noteq>
        Inl (UnknownArgumentFormat x))"
proof -
  note t = Do_unknown_argument_format [where self = unknown_format_executor
      and output_dict = test_output_dict and s = test_store and exec_properties = Map.empty]
  have a: "Do unknown_format_executor test_input_dict test_output_dict Map.empty test_store =
      (Raised (UnknownArgumentFormat (PInt 6)), test_store, [])"
    by (rule t [where input_dict = test_input_dict, THEN conjunct2, THEN conjunct1,
          rule_format, of "[(''a'', INPUT_ARTIFACT)]" "''b''" "PInt 6" "[]" "[PArtifact 0]"])
       (simp add: unknown_format_executor_def test_input_dict_def first_artifact_def)
  have "\<exists>e. Do_function_args (ARG_FORMATS unknown_format_executor) Map.empty test_output_dict
        test_store [] = Inl e \<and>
      Do unknown_format_executor Map.empty test_output_dict Map.empty test_store =
        (Raised e, test_store, []) \<and>
      ((\<exists>n y. (n, NotAnArgFormat y) \<in> set (ARG_FORMATS unknown_format_executor) \<and>
          e = UnknownArgumentFormat y) \<or> (\<exists>n. e = KeyError n) \<or> e = IndexError)"
    by (rule t [where input_dict = Map.empty, THEN conjunct1, rule_format,
          of "''b''" "PInt 6"])
       (simp add: unknown_format_executor_def)
  then have b: "\<exists>e. Do unknown_format_executor Map.empty test_output_dict Map.empty test_store =
      (Raised e, test_store, [])"
    by blast
  have p: "parse_typehint_component_function (simple_component (\<lambda>a b. Inl TypeError) :: unit py_function) =
     Inr ([(''a'', PrimitiveKind PrimInt), (''b'', PrimitiveKind PrimInt),
           (''c'', PrimitiveKind PrimText), (''d'', PrimitiveKind PrimBytes)], [],
          [(''a'', ARTIFACT_VALUE), (''b'', ARTIFACT_VALUE), (''c'', ARTIFACT_VALUE),
           (''d'', ARTIFACT_VALUE)],
          [(''e'', PrimitiveKind PrimFloat), (''f'', PrimitiveKind PrimFloat)])"
    by (simp add: parse_typehint_component_function_def simple_component_def)
  from t [where input_dict = Map.empty, THEN conjunct2, THEN conjunct2, rule_format, OF p]
  have c: "\<forall>x. Do_function_args
          [(''a'', ARTIFACT_VALUE), (''b'', ARTIFACT_VALUE), (''c'', ARTIFACT_VALUE),
           (''d'', ARTIFACT_VALUE)] Map.empty test_output_dict test_store [] \<noteq>
        Inl (UnknownArgumentFormat x)"
    by blast
  from a b p c show ?thesis by blast
qed

text \<open>
  The claim as it is stated fails when an entry before the unknown role does not
  resolve: with an empty \<^verbatim>\<open>input_dict\<close>, the input artifact \<^verbatim>\<open>a\<close> raises
  \<^verbatim>\<open>KeyError\<close> before the unknown format of \<^verbatim>\<open>b\<close> is reached.
\<close>

theorem Do_unknown_argument_format_counterexample:
  "(''b'', NotAnArgFormat (PInt 6)) \<in> set (ARG_FORMATS unknown_format_executor) \<and>
   Do unknown_format_executor Map.empty test_output_dict Map.empty test_store =
     (Raised (KeyError ''a''), test_store, [])"
  by (simp add: unknown_format_executor_def Do_def first_artifact_def)

section \<open>The decorator\<close>

lemma component_Inr:
  assumes "component parse PY2 modules func = Inr (cls, modules')"
  obtains inputs outputs arg_formats returned_values the_module where
    "\<not> PY2"
    "''<locals>'' \<notin> set (split (func_qualname func) (CHR ''.''))"
    "parse func = Inr (inputs, outputs, arg_formats, returned_values)"
    "modules (func_module func) = Some the_module"
    "EXECUTOR_SPEC cls =
       \<lparr>cls_name = func_name func @ ''_Executor'', cls_module = func_module func,
        ARG_FORMATS = arg_formats, FUNCTION = func_body func,
        RETURNED_VALUES = returned_values\<rparr>"
    "modules' = modules(func_module func \<mapsto>
       the_module(func_name func @ ''_Executor'' \<mapsto> ExecutorClassAttr (EXECUTOR_SPEC cls)))"
    "comp_name cls = func_name func" "comp_module cls = func_module func"
  using assms
  by (auto simp: component_def Let_def split: if_splits sum.splits option.splits prod.splits)

text \<open>
  Claim C8. When \<^verbatim>\<open>component\<close> succeeds, the module of the function holds the
  generated executor class under the name of the function followed by
  \<^verbatim>\<open>_Executor\<close>: looking this name up in \<^verbatim>\<open>sys.modules\<close> under the module path
  gives the executor class of the returned component, which carries the function, the
  argument formats and the returned values of the classification. No other attribute of
  any module is changed.
\<close>

theorem component_registers_executor:
  assumes "component parse PY2 modules func = Inr (cls, modules')"
  shows "resolve_attr modules' (func_module func) (func_name func @ ''_Executor'') =
           Some (ExecutorClassAttr (EXECUTOR_SPEC cls)) \<and>
         cls_name (EXECUTOR_SPEC cls) = func_name func @ ''_Executor'' \<and>
         cls_module (EXECUTOR_SPEC cls) = func_module func \<and>
         FUNCTION (EXECUTOR_SPEC cls) = func_body func \<and>
         (\<exists>inputs outputs.
            parse func = Inr (inputs, outputs, ARG_FORMATS (EXECUTOR_SPEC cls),
                              RETURNED_VALUES (EXECUTOR_SPEC cls))) \<and>
         (\<forall>mod_name attr.
            (mod_name, attr) \<noteq> (func_module func, func_name func @ ''_Executor'') \<longrightarrow>
            resolve_attr modules' mod_name attr = resolve_attr modules mod_name attr)"
proof -
  from assms obtain inputs outputs arg_formats returned_values the_module where
    p: "parse func = Inr (inputs, outputs, arg_formats, returned_values)" and
    m: "modules (func_module func) = Some the_module" and
    e: "EXECUTOR_SPEC cls =
       \<lparr>cls_name = func_name func @ ''_Executor'', cls_module = func_module func,
        ARG_FORMATS = arg_formats, FUNCTION = func_body func,
        RETURNED_VALUES = returned_values\<rparr>" and
    m': "modules' = modules(func_module func \<mapsto>
       the_module(func_name func @ ''_Executor'' \<mapsto> ExecutorClassAttr (EXECUTOR_SPEC cls)))"
    by (rule component_Inr)
  have r: "resolve_attr modules' (func_module func) (func_name func @ ''_Executor'') =
      Some (ExecutorClassAttr (EXECUTOR_SPEC cls))"
    by (simp add: resolve_attr_def m')
  have f: "resolve_attr modules' mod_name attr = resolve_attr modules mod_name attr"
    if "(mod_name, attr) \<noteq> (func_module func, func_name func @ ''_Executor'')"
    for mod_name attr
    using that m by (auto simp: resolve_attr_def m')
  from r f p e show ?thesis by simp
qed

theorem component_registers_executor_witness:
  "\<exists>cls modules'.
     component parse_typehint_component_function False
       [''tfx.components.base.decorators_test'' \<mapsto> Map.empty]
       (simple_component (\<lambda>a b. Inl TypeError) :: unit py_function) = Inr (cls, modules') \<and>
     resolve_attr modules' ''tfx.components.base.decorators_test'' ''simple_component_Executor'' =
       Some (ExecutorClassAttr (EXECUTOR_SPEC cls)) \<and>
     cls_name (EXECUTOR_SPEC cls) = ''simple_component_Executor''"
proof -
  obtain cls modules' where r:
    "component parse_typehint_component_function False
       [''tfx.components.base.decorators_test'' \<mapsto> Map.empty]
       (simple_component (\<lambda>a b. Inl TypeError) :: unit py_function) = Inr (cls, modules')"
    by (simp add: component_def parse_typehint_component_function_def simple_component_def
        split_def Let_def)
  from component_registers_executor [OF r] have
    "resolve_attr modules' ''tfx.components.base.decorators_test'' ''simple_component_Executor'' =
       Some (ExecutorClassAttr (EXECUTOR_SPEC cls)) \<and>
     cls_name (EXECUTOR_SPEC cls) = ''simple_component_Executor''"
    by (simp add: simple_component_def)
  with r show ?thesis by blast
qed

text \<open>
  The check of the definition scope (lines 165-169) comes before the function is parsed:
  a qualified name with the component \<^verbatim>\<open><locals>\<close> is rejected whatever the
  annotations are, as the test \<^verbatim>\<open>testDefinitionInClosureFails\<close> expects.
\<close>

lemma component_rejects_closure:
  "''<locals>'' \<in> set (split (func_qualname func) (CHR ''.'')) \<Longrightarrow>
     component parse False modules func = Inl DefinitionScopeError"
  by (simp add: component_def)

lemma my_component_rejected:
  "component parse False modules my_component = Inl DefinitionScopeError"
  by (rule component_rejects_closure) (simp add: my_component_def split_def)

text \<open>
  Claim C4. The docstring of \<^verbatim>\<open>component\<close> requires the function to be at the top
  level of its module, not within nested classes or function closures. The check looks
  for the component \<^verbatim>\<open><locals>\<close> only, which the qualified name of a function defined
  in the body of a class does not have: for \<^verbatim>\<open>my_component\<close> defined in a class
  \<^verbatim>\<open>Inner\<close> nested in a class \<^verbatim>\<open>Outer\<close> of the module, \<^verbatim>\<open>component\<close> raises no
  error of the definition scope and builds and registers the component.
\<close>

theorem component_accepts_class_nested_function:
  "''<locals>'' \<notin> set (split ''Outer.Inner.my_component'' (CHR ''.'')) \<and>
   (\<exists>cls modules'.
      component parse_typehint_component_function False
        [''tfx.components.base.decorators_test'' \<mapsto> Map.empty]
        ((my_component :: unit py_function)\<lparr>func_qualname := ''Outer.Inner.my_component''\<rparr>) =
        Inr (cls, modules') \<and>
      comp_name cls = ''my_component'' \<and>
      resolve_attr modules' ''tfx.components.base.decorators_test'' ''my_component_Executor'' =
        Some (ExecutorClassAttr (EXECUTOR_SPEC cls)))"
  by (simp add: component_def parse_typehint_component_function_def my_component_def
      split_def resolve_attr_def Let_def)

section \<open>The test pipeline\<close>







end
